theory Spec2Isabelle
  imports Main "HOL-Library.Word"
begin

unbundle bit_operations_syntax

section \<open>Data model\<close>

type_synonym byte = "8 word"

text \<open>
  Puppeteer's \<open>PDFOptions\<close>, with the fields that the presets of
  \<open>pdf-options/presets/default.ts\<close> and the handlers of \<open>app.ts\<close> use. Every field is
  optional in the TypeScript type, hence \<open>option\<close>.
\<close>

record PDFMargin =
  top' :: string
  bottom :: string
  left :: string
  right :: string

record PDFOptions =
  format :: "string option"
  landscape :: "bool option"
  margin :: "PDFMargin option"
  printBackground :: "bool option"
  displayHeaderFooter :: "bool option"
  headerTemplate :: "string option"
  footerTemplate :: "string option"

definition emptyPDFOptions :: PDFOptions where
  "emptyPDFOptions =
     \<lparr>format = None, landscape = None, margin = None, printBackground = None,
      displayHeaderFooter = None, headerTemplate = None, footerTemplate = None\<rparr>"

text \<open>
  \<open>defaultMargin\<close> and \<open>PresetPDFOptions\<close> of \<open>default.ts\<close>. The three constants
  \<open>DEFAULT_PDF_OPTION_FORMAT\<close>, \<open>DEFAULT_PDF_OPTION_LANDSCAPE\<close> and
  \<open>DEFAULT_PDF_OPTION_MARGIN\<close> come from \<open>config.ts\<close> and are parameters here.
\<close>

definition defaultMargin :: "string \<Rightarrow> PDFMargin" where
  "defaultMargin m = \<lparr>top' = m, bottom = m, left = m, right = m\<rparr>"

definition PresetPDFOptions :: "string \<Rightarrow> bool \<Rightarrow> string \<Rightarrow> (string \<times> PDFOptions) list" where
  "PresetPDFOptions fmt land m =
     [(''DEFAULT'', emptyPDFOptions\<lparr>format := Some fmt, landscape := Some land,
         margin := Some (defaultMargin m), printBackground := Some True\<rparr>),
      (''A4'', emptyPDFOptions\<lparr>format := Some ''a4'',
         margin := Some (defaultMargin m), printBackground := Some True\<rparr>),
      (''A3'', emptyPDFOptions\<lparr>format := Some ''a3'',
         margin := Some (defaultMargin m), printBackground := Some True\<rparr>),
      (''A4L'', emptyPDFOptions\<lparr>format := Some ''a4'', landscape := Some True,
         margin := Some (defaultMargin m), printBackground := Some True\<rparr>),
      (''A3L'', emptyPDFOptions\<lparr>format := Some ''a3'', landscape := Some True,
         margin := Some (defaultMargin m), printBackground := Some True\<rparr>),
      (''nomargin'', emptyPDFOptions\<lparr>format := Some ''a4'', landscape := Some False,
         margin := Some \<lparr>top' = ''0mm'', bottom = ''0mm'', left = ''0mm'', right = ''0mm''\<rparr>,
         printBackground := Some True\<rparr>),
      (''bottommargin'', emptyPDFOptions\<lparr>format := Some ''a4'', landscape := Some False,
         margin := Some \<lparr>top' = ''0mm'', bottom = ''0.5cm'', left = ''0mm'', right = ''0mm''\<rparr>,
         printBackground := Some True\<rparr>),
      (''landscape'', emptyPDFOptions\<lparr>format := Some ''a4'', landscape := Some True,
         margin := Some \<lparr>top' = ''0mm'', bottom = ''0mm'', left = ''0mm'', right = ''0mm''\<rparr>,
         printBackground := Some True\<rparr>),
      (''A4headerfooter'', emptyPDFOptions\<lparr>format := Some ''a4'',
         margin := Some \<lparr>top' = ''40mm'', bottom = ''30mm'', left = ''0.5cm'', right = ''0.5cm''\<rparr>,
         printBackground := Some True, displayHeaderFooter := Some True\<rparr>)]"

subsection \<open>Base64\<close>

text \<open>
  \<open>imgBuffer.toString('base64')\<close> in \<open>getImageBase64\<close>: Node's standard base64
  (alphabet \<open>A-Z a-z 0-9 + /\<close>, padded with \<open>=\<close>), three bytes to four characters.
\<close>

definition b64chars :: string where
  "b64chars = ''ABCDEFGHIJKLMNOPQRSTUVWXYZabcdefghijklmnopqrstuvwxyz0123456789+/''"

definition enc6 :: "byte \<Rightarrow> char" where
  "enc6 w = b64chars ! unat (w AND 63)"

fun toBase64 :: "byte list \<Rightarrow> string" where
  "toBase64 [] = []"
| "toBase64 [a] =
     [enc6 (drop_bit 2 a), enc6 (push_bit 4 (a AND 3)), CHR ''='', CHR ''='']"
| "toBase64 [a, b] =
     [enc6 (drop_bit 2 a), enc6 (push_bit 4 (a AND 3) OR drop_bit 4 b),
      enc6 (push_bit 2 (b AND 15)), CHR ''='']"
| "toBase64 (a # b # c # rest) =
     [enc6 (drop_bit 2 a), enc6 (push_bit 4 (a AND 3) OR drop_bit 4 b),
      enc6 (push_bit 2 (b AND 15) OR drop_bit 6 c), enc6 (c AND 63)] @ toBase64 rest"

text \<open>
  The reference decoder against which the payload of the data URI is read back: the
  inverse table of the alphabet, four characters to three bytes, \<open>=\<close> only as padding of
  the last group. It is not part of the server; it states what "base64-decoding the
  payload" means.
\<close>

fun index_of :: "'a \<Rightarrow> 'a list \<Rightarrow> nat option" where
  "index_of x [] = None"
| "index_of x (y # ys) = (if x = y then Some 0 else map_option Suc (index_of x ys))"

definition dec6 :: "char \<Rightarrow> byte option" where
  "dec6 c = map_option of_nat (index_of c b64chars)"

definition dec_group :: "char \<Rightarrow> char \<Rightarrow> char \<Rightarrow> char \<Rightarrow> byte list option" where
  "dec_group c1 c2 c3 c4 =
     (case (dec6 c1, dec6 c2, dec6 c3, dec6 c4) of
        (Some s1, Some s2, Some s3, Some s4) \<Rightarrow>
          Some [push_bit 2 s1 OR drop_bit 4 s2,
                push_bit 4 (s2 AND 15) OR drop_bit 2 s3,
                push_bit 6 (s3 AND 3) OR s4]
      | _ \<Rightarrow> None)"

definition dec_last :: "char \<Rightarrow> char \<Rightarrow> char \<Rightarrow> char \<Rightarrow> byte list option" where
  "dec_last c1 c2 c3 c4 =
     (if c3 = CHR ''='' \<and> c4 = CHR ''='' then
        (case (dec6 c1, dec6 c2) of
           (Some s1, Some s2) \<Rightarrow> Some [push_bit 2 s1 OR drop_bit 4 s2]
         | _ \<Rightarrow> None)
      else if c4 = CHR ''='' then
        (case (dec6 c1, dec6 c2, dec6 c3) of
           (Some s1, Some s2, Some s3) \<Rightarrow>
             Some [push_bit 2 s1 OR drop_bit 4 s2, push_bit 4 (s2 AND 15) OR drop_bit 2 s3]
         | _ \<Rightarrow> None)
      else dec_group c1 c2 c3 c4)"

fun base64_decode :: "string \<Rightarrow> byte list option" where
  "base64_decode [] = Some []"
| "base64_decode [c1, c2, c3, c4] = dec_last c1 c2 c3 c4"
| "base64_decode (c1 # c2 # c3 # c4 # rest) =
     (case dec_group c1 c2 c3 c4 of
        None \<Rightarrow> None
      | Some bs \<Rightarrow> map_option (\<lambda>more. bs @ more) (base64_decode rest))"
| "base64_decode _ = None"

subsection \<open>HTML fragments\<close>

text \<open>
  The document that \<open>cheerio.load\<close> builds: a forest of text and element nodes, an
  element with its name, its attributes in order and its children. The parser
  (\<open>cheerio.load\<close>) and the serialiser (\<open>$.html()\<close>) belong to the library and are
  parameters of the model (see \<open>env\<close> below); selection and attribute access are
  modelled here.
\<close>

datatype node = Text string | Element string "(string \<times> string) list" "node list"

text \<open>\<open>$('img')\<close>: every element of that name, in document order.\<close>

fun select :: "string \<Rightarrow> node \<Rightarrow> node list" where
  "select t (Text s) = []"
| "select t (Element n as cs) =
     (if n = t then [Element n as cs] else []) @ concat (map (select t) cs)"

definition select_all :: "string \<Rightarrow> node list \<Rightarrow> node list" where
  "select_all t d = concat (map (select t) d)"

fun attribs :: "node \<Rightarrow> (string \<times> string) list" where
  "attribs (Text s) = []"
| "attribs (Element n as cs) = as"

text \<open>
  \<open>imgElement.attr('src')\<close>: the attribute of the first selected element,
  \<open>undefined\<close> (here \<open>None\<close>) when it has none.
\<close>

definition attr :: "node list \<Rightarrow> string \<Rightarrow> string option" where
  "attr sel name = (case sel of [] \<Rightarrow> None | e # _ \<Rightarrow> map_of (attribs e) name)"

fun set_attrib :: "string \<Rightarrow> string \<Rightarrow> (string \<times> string) list \<Rightarrow> (string \<times> string) list" where
  "set_attrib k v [] = [(k, v)]"
| "set_attrib k v ((k', v') # rest) =
     (if k = k' then (k, v) # rest else (k', v') # set_attrib k v rest)"

text \<open>
  \<open>imgElement.attr('src', value)\<close>: the setter writes the attribute of every
  selected element, in place in the document. The selection is \<open>$('img')\<close>, so the
  elements written are those named \<open>t\<close>.
\<close>

fun set_attr :: "string \<Rightarrow> string \<Rightarrow> string \<Rightarrow> node \<Rightarrow> node" where
  "set_attr t k v (Text s) = Text s"
| "set_attr t k v (Element n as cs) =
     Element n (if n = t then set_attrib k v as else as) (map (set_attr t k v) cs)"

definition set_attr_all :: "string \<Rightarrow> string \<Rightarrow> string \<Rightarrow> node list \<Rightarrow> node list" where
  "set_attr_all t k v d = map (set_attr t k v) d"

subsection \<open>Environment, state and events\<close>

datatype error = AxiosError string | PageError string | OptionsError string

datatype content = Url string | Html string

text \<open>
  What the server calls but does not implement: cheerio's parser and serialiser,
  \<open>axios.get\<close> (its failure is the transport error), and the browser page
  (\<open>page.goto\<close>, \<open>page.setContent\<close>, \<open>page.pdf\<close>; \<open>None\<close> is success for the
  first two). The PDF depends on what the page shows and on the options.
\<close>

record env =
  cheerio_load :: "string \<Rightarrow> node list"
  cheerio_html :: "node list \<Rightarrow> string"
  axios_get :: "string \<Rightarrow> error + byte list"
  page_goto :: "string \<Rightarrow> error option"
  page_setContent :: "string \<Rightarrow> error option"
  page_pdf :: "content \<Rightarrow> PDFOptions \<Rightarrow> error + byte list"

text \<open>
  The observable steps of a request, in the order they happen: the lease and the
  release of a page by \<open>runOnPage\<close>, the calls on the page, the resolution of a
  preset and the HTTP fetch of an image.
\<close>

datatype event =
    Lease
  | Release
  | Goto string
  | SetContent string
  | GetPDFOptions string
  | AxiosGet string
  | Pdf content PDFOptions

text \<open>
  Option objects live in a store and are handled by reference, as JavaScript objects
  are: \<open>pdfOptions.displayHeaderFooter = true\<close> writes the object that
  \<open>pdfOptions\<close> refers to. The registry maps a preset name to the reference of its
  stored record.
\<close>

type_synonym ref = nat

record state =
  heap :: "ref \<Rightarrow> PDFOptions option"
  next_ref :: ref
  preset :: "(string \<times> ref) list"
  trace :: "event list"

datatype unknown_policy = Reject | FallBackToDefault

text \<open>
  \<open>defaultPresetPdfOptionsName\<close> of \<open>AppConfig\<close>; \<open>unknownPreset\<close> is the policy for
  a name that the registry does not hold, which the specification leaves to the
  configuration.
\<close>

record config =
  defaultPresetPdfOptionsName :: string
  unknownPreset :: unknown_policy

subsection \<open>Jobs: state, failure, sequencing\<close>

text \<open>
  An asynchronous function that may throw: it takes the state and returns the new
  state with either the error thrown (\<open>Inl\<close>) or the value returned (\<open>Inr\<close>).
  \<open>await m f\<close> runs \<open>m\<close> and continues with \<open>f\<close> on its value; an error of \<open>m\<close>
  ends the sequence, with the state as \<open>m\<close> left it.
\<close>

type_synonym 'a job = "state \<Rightarrow> (error + 'a) \<times> state"

definition return_job :: "'a \<Rightarrow> 'a job" where
  "return_job x s = (Inr x, s)"

definition await :: "'a job \<Rightarrow> ('a \<Rightarrow> 'b job) \<Rightarrow> 'b job" where
  "await m f s = (case m s of (Inl e, s1) \<Rightarrow> (Inl e, s1) | (Inr x, s1) \<Rightarrow> f x s1)"

definition emit :: "event \<Rightarrow> state \<Rightarrow> state" where
  "emit e s = s\<lparr>trace := trace s @ [e]\<rparr>"

text \<open>A field assignment \<open>pdfOptions.field = value\<close> through the reference.\<close>

definition assign :: "ref \<Rightarrow> (PDFOptions \<Rightarrow> PDFOptions) \<Rightarrow> unit job" where
  "assign r f s = (Inr (), s\<lparr>heap := (heap s)(r := map_option f (heap s r))\<rparr>)"

subsection \<open>Preset registry\<close>

text \<open>
  Modelled from the spec: the plugin \<open>plugins/pdf-options\<close> (\<open>hcPDFOptionsPlugin\<close>,
  \<open>server.getPDFOptions\<close>) is not among the sources. Section 4.1: the table is loaded
  once at start; section 3: per-request customisation works on a copy of the preset's
  base record. Loading stores each record of the table and registers its name (a later
  entry of the same name wins, as in an object literal).
\<close>

fun store_presets :: "(string \<times> PDFOptions) list \<Rightarrow> state \<Rightarrow> state" where
  "store_presets [] s = s"
| "store_presets ((name, opts) # rest) s =
     store_presets rest
       (s\<lparr>heap := (heap s)(next_ref s \<mapsto> opts),
          next_ref := Suc (next_ref s),
          preset := (name, next_ref s) # preset s\<rparr>)"

definition init_state :: "(string \<times> PDFOptions) list \<Rightarrow> state" where
  "init_state table =
     store_presets table \<lparr>heap = Map.empty, next_ref = 0, preset = [], trace = []\<rparr>"

text \<open>
  Modelled from the spec: the lookup of section 4.1. A name that the registry holds
  resolves to its record; an unknown name is rejected or falls back to the default
  preset, by the configured policy.
\<close>

definition lookup_preset :: "config \<Rightarrow> (string \<times> ref) list \<Rightarrow> string \<Rightarrow> ref option" where
  "lookup_preset cfg reg name =
     (case map_of reg name of
        Some r \<Rightarrow> Some r
      | None \<Rightarrow>
          (case unknownPreset cfg of
             Reject \<Rightarrow> None
           | FallBackToDefault \<Rightarrow> map_of reg (defaultPresetPdfOptionsName cfg)))"

text \<open>
  Modelled from the spec: \<open>server.getPDFOptions(name)\<close>. It returns a reference to a
  fresh copy of the stored record ("the registry's stored record is never mutated in
  place", "per-request customization always operates on a copy"), and throws when the
  name does not resolve.
\<close>

definition getPDFOptions :: "config \<Rightarrow> string \<Rightarrow> ref job" where
  "getPDFOptions cfg name s =
     (let s1 = emit (GetPDFOptions name) s in
      case lookup_preset cfg (preset s) name of
        None \<Rightarrow> (Inl (OptionsError name), s1)
      | Some r \<Rightarrow>
          (case heap s r of
             None \<Rightarrow> (Inl (OptionsError name), s1)
           | Some base \<Rightarrow>
               (Inr (next_ref s),
                s1\<lparr>heap := (heap s)(next_ref s \<mapsto> base), next_ref := Suc (next_ref s)\<rparr>)))"

subsection \<open>The page pool and the page\<close>

text \<open>
  \<open>server.runOnPage(callback)\<close> of the page pool (an external package): it leases a
  page, runs the callback on it and gives the page back; the result or the error of the
  callback is its own.
\<close>

definition runOnPage :: "'a job \<Rightarrow> 'a job" where
  "runOnPage callback s = (case callback (emit Lease s) of (r, s1) \<Rightarrow> (r, emit Release s1))"

definition goto :: "env \<Rightarrow> string \<Rightarrow> unit job" where
  "goto env url s =
     (case page_goto env url of
        None \<Rightarrow> (Inr (), emit (Goto url) s)
      | Some e \<Rightarrow> (Inl e, emit (Goto url) s))"

definition setContent :: "env \<Rightarrow> string \<Rightarrow> unit job" where
  "setContent env html s =
     (case page_setContent env html of
        None \<Rightarrow> (Inr (), emit (SetContent html) s)
      | Some e \<Rightarrow> (Inl e, emit (SetContent html) s))"

text \<open>
  \<open>page.pdf(pdfOptions)\<close> reads the option object at the time of the call. A reference
  without an object does not occur (every reference comes from \<open>getPDFOptions\<close>); the
  model makes it an error.
\<close>

definition pdf :: "env \<Rightarrow> content \<Rightarrow> ref \<Rightarrow> byte list job" where
  "pdf env c pdfOptions s =
     (case heap s pdfOptions of
        None \<Rightarrow> (Inl (PageError []), s)
      | Some opts \<Rightarrow> (page_pdf env c opts, emit (Pdf c opts) s))"

subsection \<open>The handlers of \<open>app.ts\<close>\<close>

record GetQuerystring =
  q_url :: "string option"
  q_pdf_option :: "string option"
  q_header :: "string option"
  q_footer :: "string option"

record PostBody =
  b_html :: "string option"
  b_pdf_option :: "string option"
  b_header :: "string option"
  b_footer :: "string option"

datatype jvalue = JString string | JError error | JNumber nat

datatype payload = Binary "byte list" | Json "(string \<times> jvalue) list"

datatype hvalue = HString string | HNumber nat

record reply =
  statusCode :: nat
  headers :: "(string \<times> hvalue) list"
  payload :: payload

definition createPDFHttpHeader :: "byte list \<Rightarrow> (string \<times> hvalue) list" where
  "createPDFHttpHeader buffer =
     [(''Content-Type'', HString ''application/pdf''),
      (''Content-Length'', HNumber (length buffer)),
      (''Cache-Control'', HString ''no-cache, no-store, must-revalidate''),
      (''Pragma'', HString ''no-cache''),
      (''Expires'', HNumber 0)]"

text \<open>
  \<open>getImageBase64\<close>: the fetch, then the base64 text of the bytes received. The
  \<open>catch\<close> logs and rethrows the same error.
\<close>

definition getImageBase64 :: "env \<Rightarrow> string \<Rightarrow> string job" where
  "getImageBase64 env url s =
     (case axios_get env url of
        Inr data \<Rightarrow> (Inr (toBase64 data), emit (AxiosGet url) s)
      | Inl error \<Rightarrow> (Inl error, emit (AxiosGet url) s))"

text \<open>
  Lines 139 to 148 for the header and 155 to 164 for the footer are the same code on
  the respective fragment: parse, select the images, and when there is one and the
  first has a \<open>src\<close>, fetch it and write the data URI to the selection. The value is the
  document that \<open>$.html()\<close> then serialises.
\<close>

definition inlineImages :: "env \<Rightarrow> string \<Rightarrow> node list job" where
  "inlineImages env fragment =
     (let doc = cheerio_load env fragment;
          imgElement = select_all ''img'' doc
      in if length imgElement > 0 then
           (case attr imgElement ''src'' of
              Some imgUrl \<Rightarrow>
                await (getImageBase64 env imgUrl) (\<lambda>imgBase64.
                  return_job
                    (set_attr_all ''img'' ''src'' (''data:image/png;base64,'' @ imgBase64) doc))
            | None \<Rightarrow> return_job doc)
         else return_job doc)"

text \<open>
  \<open>request.query.header ?? false\<close> followed by \<open>if (header)\<close>: the branch is taken
  for a string that is present and not empty.
\<close>

definition headerBlock :: "env \<Rightarrow> ref \<Rightarrow> string option \<Rightarrow> unit job" where
  "headerBlock env pdfOptions header =
     (case header of
        None \<Rightarrow> return_job ()
      | Some h \<Rightarrow>
          if h = [] then return_job ()
          else
            await (assign pdfOptions (\<lambda>opts. opts\<lparr>displayHeaderFooter := Some True\<rparr>)) (\<lambda>_.
            await (inlineImages env h) (\<lambda>doc.
            assign pdfOptions (\<lambda>opts. opts\<lparr>headerTemplate := Some (cheerio_html env doc)\<rparr>))))"

definition footerBlock :: "env \<Rightarrow> ref \<Rightarrow> string option \<Rightarrow> unit job" where
  "footerBlock env pdfOptions footer =
     (case footer of
        None \<Rightarrow> return_job ()
      | Some f \<Rightarrow>
          if f = [] then return_job ()
          else
            await (assign pdfOptions (\<lambda>opts. opts\<lparr>displayHeaderFooter := Some True\<rparr>)) (\<lambda>_.
            await (inlineImages env f) (\<lambda>doc.
            assign pdfOptions (\<lambda>opts. opts\<lparr>footerTemplate := Some (cheerio_html env doc)\<rparr>))))"

text \<open>The callback that the GET handler passes to \<open>runOnPage\<close> (lines 129 to 169).\<close>

definition getJob ::
  "env \<Rightarrow> config \<Rightarrow> string \<Rightarrow> string \<Rightarrow> string option \<Rightarrow> string option \<Rightarrow> byte list job" where
  "getJob env cfg url pdfOptionsQuery header footer =
     await (goto env url) (\<lambda>_.
     await (getPDFOptions cfg pdfOptionsQuery) (\<lambda>pdfOptions.
     await (headerBlock env pdfOptions header) (\<lambda>_.
     await (footerBlock env pdfOptions footer) (\<lambda>_.
     pdf env (Url url) pdfOptions))))"

definition badRequest :: "string \<Rightarrow> reply" where
  "badRequest msg = \<lparr>statusCode = 400, headers = [], payload = Json [(''error'', JString msg)]\<rparr>"

definition pdfReply :: "byte list \<Rightarrow> reply" where
  "pdfReply buffer =
     \<lparr>statusCode = 200, headers = createPDFHttpHeader buffer, payload = Binary buffer\<rparr>"

definition getHandler :: "env \<Rightarrow> config \<Rightarrow> GetQuerystring \<Rightarrow> state \<Rightarrow> reply \<times> state" where
  "getHandler env cfg query s =
     (case q_url query of
        None \<Rightarrow> (badRequest ''url is required'', s)
      | Some url \<Rightarrow>
          if url = [] then (badRequest ''url is required'', s)
          else
            (let pdfOptionsQuery =
                   (case q_pdf_option query of
                      None \<Rightarrow> defaultPresetPdfOptionsName cfg
                    | Some name \<Rightarrow> name)
             in case runOnPage
                       (getJob env cfg url pdfOptionsQuery (q_header query) (q_footer query)) s of
                  (Inr buffer, s1) \<Rightarrow> (pdfReply buffer, s1)
                | (Inl error, s1) \<Rightarrow>
                    (\<lparr>statusCode = 500, headers = [],
                      payload = Json [(''error'', JError error), (''url'', JString url)]\<rparr>, s1)))"

text \<open>
  The POST handler resolves the options and assigns the templates before the
  \<open>try\<close>; an error thrown there reaches the framework, whose default handler answers
  500.
\<close>

definition postHeaderBlock :: "ref \<Rightarrow> string option \<Rightarrow> unit job" where
  "postHeaderBlock pdfOptions header =
     (case header of
        None \<Rightarrow> return_job ()
      | Some h \<Rightarrow>
          if h = [] then return_job ()
          else
            await (assign pdfOptions (\<lambda>opts. opts\<lparr>displayHeaderFooter := Some True\<rparr>)) (\<lambda>_.
            assign pdfOptions (\<lambda>opts. opts\<lparr>headerTemplate := Some h\<rparr>)))"

definition postFooterBlock :: "ref \<Rightarrow> string option \<Rightarrow> unit job" where
  "postFooterBlock pdfOptions footer =
     (case footer of
        None \<Rightarrow> return_job ()
      | Some f \<Rightarrow>
          if f = [] then return_job ()
          else
            await (assign pdfOptions (\<lambda>opts. opts\<lparr>displayHeaderFooter := Some True\<rparr>)) (\<lambda>_.
            assign pdfOptions (\<lambda>opts. opts\<lparr>footerTemplate := Some f\<rparr>)))"

definition postOptions :: "config \<Rightarrow> string \<Rightarrow> string option \<Rightarrow> string option \<Rightarrow> ref job" where
  "postOptions cfg pdfOptionsQuery header footer =
     await (getPDFOptions cfg pdfOptionsQuery) (\<lambda>pdfOptions.
     await (postHeaderBlock pdfOptions header) (\<lambda>_.
     await (postFooterBlock pdfOptions footer) (\<lambda>_.
     return_job pdfOptions)))"

definition postJob :: "env \<Rightarrow> string \<Rightarrow> ref \<Rightarrow> byte list job" where
  "postJob env html pdfOptions =
     await (setContent env html) (\<lambda>_. pdf env (Html html) pdfOptions)"

definition frameworkError :: "error \<Rightarrow> reply" where
  "frameworkError e =
     \<lparr>statusCode = 500, headers = [],
      payload = Json [(''statusCode'', JNumber 500),
                      (''error'', JString ''Internal Server Error''),
                      (''message'', JError e)]\<rparr>"

definition postHandler :: "env \<Rightarrow> config \<Rightarrow> PostBody option \<Rightarrow> state \<Rightarrow> reply \<times> state" where
  "postHandler env cfg request_body s =
     (case request_body of
        None \<Rightarrow> (badRequest ''request body is empty'', s)
      | Some body \<Rightarrow>
          (let html = (case b_html body of None \<Rightarrow> [] | Some h \<Rightarrow> h) in
           if html = [] then (badRequest ''html is required'', s)
           else
             (let pdfOptionsQuery =
                    (case b_pdf_option body of
                       None \<Rightarrow> defaultPresetPdfOptionsName cfg
                     | Some name \<Rightarrow> name)
              in case postOptions cfg pdfOptionsQuery (b_header body) (b_footer body) s of
                   (Inl e, s1) \<Rightarrow> (frameworkError e, s1)
                 | (Inr pdfOptions, s1) \<Rightarrow>
                     (case runOnPage (postJob env html pdfOptions) s1 of
                        (Inr buffer, s2) \<Rightarrow> (pdfReply buffer, s2)
                      | (Inl error, s2) \<Rightarrow>
                          (\<lparr>statusCode = 500, headers = [],
                            payload = Json [(''error'', JError error)]\<rparr>, s2)))))"

text \<open>The two routes on \<open>/\<close>.\<close>

datatype request = GET GetQuerystring | POST "PostBody option"

fun handle :: "env \<Rightarrow> config \<Rightarrow> request \<Rightarrow> state \<Rightarrow> reply \<times> state" where
  "handle env cfg (GET query) s = getHandler env cfg query s"
| "handle env cfg (POST body) s = postHandler env cfg body s"

subsection \<open>Vocabulary of the statements\<close>

text \<open>
  \<open>x ?? false\<close> followed by \<open>if (x)\<close>: a field counts as supplied when it is present and
  not empty.
\<close>

definition supplied :: "string option \<Rightarrow> bool" where
  "supplied x = (case x of None \<Rightarrow> False | Some v \<Rightarrow> v \<noteq> [])"

text \<open>The events that a request added to the trace.\<close>

definition new_events :: "state \<Rightarrow> state \<Rightarrow> event list" where
  "new_events s s' = drop (length (trace s)) (trace s')"

text \<open>
  The registry as \<open>GET /pdf_options\<close> shows it: the record stored under a name. It
  is well formed when every registered reference has been allocated.
\<close>

definition stored :: "state \<Rightarrow> string \<Rightarrow> PDFOptions option" where
  "stored s name = (case map_of (preset s) name of None \<Rightarrow> None | Some r \<Rightarrow> heap s r)"

definition registry_wf :: "state \<Rightarrow> bool" where
  "registry_wf s = list_all (\<lambda>(name, r). r < next_ref s) (preset s)"

text \<open>
  Preparation events are the resolution of the options and the image fetches of the
  inlining. \<open>prepared_before_submission\<close>: no preparation event from the lease of the
  page on, and none from the navigation on.
\<close>

fun is_prep :: "event \<Rightarrow> bool" where
  "is_prep (GetPDFOptions name) = True"
| "is_prep (AxiosGet u) = True"
| "is_prep _ = False"

fun is_goto :: "event \<Rightarrow> bool" where
  "is_goto (Goto u) = True"
| "is_goto _ = False"

definition prepared_before_submission :: "event list \<Rightarrow> bool" where
  "prepared_before_submission evs \<longleftrightarrow>
     \<not> list_ex is_prep (dropWhile (\<lambda>e. e \<noteq> Lease) evs)
     \<and> \<not> list_ex is_prep (dropWhile (\<lambda>e. \<not> is_goto e) evs)"

text \<open>
  For a GET request: the reply that the handler sends for the outcome of its job (lines
  170, 171 and 174), the end of the request once the job has returned (the page is
  given back), and the state in which the header block starts, after the lease, the
  navigation to \<open>url\<close> and the resolution of \<open>name\<close> to a copy of \<open>base\<close>.
\<close>

definition getReply :: "string \<Rightarrow> error + byte list \<Rightarrow> reply" where
  "getReply url res =
     (case res of
        Inr buffer \<Rightarrow> pdfReply buffer
      | Inl error \<Rightarrow>
          \<lparr>statusCode = 500, headers = [],
           payload = Json [(''error'', JError error), (''url'', JString url)]\<rparr>)"

definition finish :: "string \<Rightarrow> (error + byte list) \<times> state \<Rightarrow> reply \<times> state" where
  "finish url out = (getReply url (fst out), emit Release (snd out))"

definition at_blocks :: "state \<Rightarrow> string \<Rightarrow> string \<Rightarrow> PDFOptions \<Rightarrow> state" where
  "at_blocks s url name base =
     s\<lparr>trace := trace s @ [Lease, Goto url, GetPDFOptions name],
       heap := (heap s)(next_ref s \<mapsto> base),
       next_ref := Suc (next_ref s)\<rparr>"

text \<open>
  What a header or footer block, and what the resolution of the options, leave behind:
  the events added, the part of the store they may write, and the error when they
  throw.
\<close>

definition block_post :: "env \<Rightarrow> ref \<Rightarrow> state \<Rightarrow> (error + unit) \<Rightarrow> state \<Rightarrow> bool" where
  "block_post env r s res s' \<longleftrightarrow>
     (\<exists>evs. trace s' = trace s @ evs \<and> next_ref s' = next_ref s \<and> preset s' = preset s
        \<and> (\<forall>a. a \<noteq> r \<longrightarrow> heap s' a = heap s a)
        \<and> (heap s' r = None \<longleftrightarrow> heap s r = None)
        \<and> ((res = Inr ()
              \<and> (evs = [] \<or> (\<exists>u B. evs = [AxiosGet u] \<and> axios_get env u = Inr B)))
           \<or> (\<exists>u e. res = Inl e \<and> evs = [AxiosGet u] \<and> axios_get env u = Inl e)))"

definition resolve_post :: "config \<Rightarrow> string \<Rightarrow> state \<Rightarrow> (error + ref) \<Rightarrow> state \<Rightarrow> bool" where
  "resolve_post cfg name s res s' \<longleftrightarrow>
     trace s' = trace s @ [GetPDFOptions name] \<and> preset s' = preset s
     \<and> ((res = Inl (OptionsError name) \<and> heap s' = heap s \<and> next_ref s' = next_ref s
          \<and> (lookup_preset cfg (preset s) name = None
               \<or> (\<exists>r. lookup_preset cfg (preset s) name = Some r \<and> heap s r = None)))
        \<or> (res = Inr (next_ref s) \<and> next_ref s' = Suc (next_ref s)
          \<and> (\<forall>a. a \<noteq> next_ref s \<longrightarrow> heap s' a = heap s a)
          \<and> (\<exists>r base. lookup_preset cfg (preset s) name = Some r \<and> heap s r = Some base
                \<and> heap s' (next_ref s) = Some base)))"

subsection \<open>A concrete server\<close>

text \<open>
  A serialiser, an environment, a configuration and the state after loading the
  presets of \<open>default.ts\<close>, on which the theorems below are instantiated. The parser
  of the environment knows four fragments and wraps them as \<open>cheerio.load\<close> wraps a
  fragment; the image server holds one image.
\<close>

fun serialize :: "node \<Rightarrow> string" where
  "serialize (Text s) = s"
| "serialize (Element n as cs) =
     ''<'' @ n @ concat (map (\<lambda>(k, v). '' '' @ k @ ''='' @ v) as) @ ''>''
       @ concat (map serialize cs) @ ''</'' @ n @ ''>''"

definition wrap_document :: "node list \<Rightarrow> node list" where
  "wrap_document body =
     [Element ''html'' [] [Element ''head'' [] [], Element ''body'' [] body]]"

definition example_env :: env where
  "example_env =
     \<lparr>cheerio_load = (\<lambda>fragment.
        if fragment = ''<img src=http://cdn/logo.png>'' then
          wrap_document [Element ''img'' [(''src'', ''http://cdn/logo.png'')] []]
        else if fragment = ''<p><img src=http://cdn/logo.png><img src=http://cdn/b.png></p>'' then
          wrap_document
            [Element ''p'' []
               [Element ''img'' [(''src'', ''http://cdn/logo.png'')] [],
                Element ''img'' [(''src'', ''http://cdn/b.png'')] []]]
        else if fragment = ''<img alt=logo>'' then
          wrap_document [Element ''img'' [(''alt'', ''logo'')] []]
        else if fragment = ''<img src=http://cdn/b.png>'' then
          wrap_document [Element ''img'' [(''src'', ''http://cdn/b.png'')] []]
        else wrap_document [Text fragment]),
      cheerio_html = (\<lambda>doc. concat (map serialize doc)),
      axios_get = (\<lambda>url.
        if url = ''http://cdn/logo.png'' then Inr [137, 80, 78, 71]
        else Inl (AxiosError ''ECONNREFUSED'')),
      page_goto = (\<lambda>url.
        if url = ''http://site/'' then None else Some (PageError ''ERR_NAME_NOT_RESOLVED'')),
      page_setContent = (\<lambda>html. None),
      page_pdf = (\<lambda>c opts. Inr [37, 80, 68, 70])\<rparr>"

definition example_config :: config where
  "example_config = \<lparr>defaultPresetPdfOptionsName = ''DEFAULT'', unknownPreset = Reject\<rparr>"

definition example_state :: state where
  "example_state = init_state (PresetPDFOptions ''a4'' False ''1cm'')"

definition example_query :: GetQuerystring where
  "example_query =
     \<lparr>q_url = Some ''http://site/'', q_pdf_option = Some ''A4'',
      q_header = Some ''<img src=http://cdn/logo.png>'', q_footer = None\<rparr>"

definition failing_query :: GetQuerystring where
  "failing_query =
     \<lparr>q_url = Some ''http://site/'', q_pdf_option = None,
      q_header = None, q_footer = Some ''<img src=http://cdn/b.png>''\<rparr>"

definition example_body :: PostBody where
  "example_body =
     \<lparr>b_html = Some ''<p>hi</p>'', b_pdf_option = Some ''A4'',
      b_header = Some ''<img src=http://cdn/logo.png>'', b_footer = Some []\<rparr>"

definition example_A4 :: PDFOptions where
  "example_A4 = emptyPDFOptions\<lparr>format := Some ''a4'',
     margin := Some (defaultMargin ''1cm''), printBackground := Some True\<rparr>"

definition srcless_header_query :: GetQuerystring where
  "srcless_header_query =
     \<lparr>q_url = Some ''http://site/'', q_pdf_option = Some ''A4'',
      q_header = Some ''<img alt=logo>'', q_footer = Some ''<img src=http://cdn/logo.png>''\<rparr>"

definition two_images_query :: GetQuerystring where
  "two_images_query =
     \<lparr>q_url = Some ''http://site/'', q_pdf_option = Some ''A4'',
      q_header = Some ''<p><img src=http://cdn/logo.png><img src=http://cdn/b.png></p>'',
      q_footer = Some ''<img alt=logo>''\<rparr>"

definition example_at_blocks :: state where
  "example_at_blocks = at_blocks example_state ''http://site/'' ''A4'' example_A4"

section \<open>Base64 round trip\<close>

lemma index_of_nth: "distinct xs \<Longrightarrow> n < length xs \<Longrightarrow> index_of (xs ! n) xs = Some n"
proof (induction xs arbitrary: n)
  case Nil
  then show ?case by simp
next
  case (Cons y ys)
  show ?case
  proof (cases n)
    case 0
    then show ?thesis by simp
  next
    case (Suc m)
    with Cons.prems have "ys ! m \<in> set ys" "y \<notin> set ys" "m < length ys" by auto
    then have "ys ! m \<noteq> y" by auto
    with Cons Suc show ?thesis by simp
  qed
qed

lemma b64chars_distinct: "distinct b64chars"
  by (simp add: b64chars_def)

lemma b64chars_length: "length b64chars = 64"
  by (simp add: b64chars_def)

lemma and63_lt: "unat ((w::byte) AND 63) < 64"
proof -
  have "unat (w AND 63) \<le> unat (63 :: byte)"
    by (rule word_and_le1 [THEN word_le_nat_alt [THEN iffD1]])
  then show ?thesis by simp
qed

lemma dec6_enc6: "dec6 (enc6 w) = Some (w AND 63)"
  using index_of_nth [OF b64chars_distinct, of "unat (w AND 63)"] and63_lt [of w]
  by (simp add: dec6_def enc6_def b64chars_length)

lemma enc6_not_pad: "enc6 w \<noteq> CHR ''=''"
proof -
  have "CHR ''='' \<notin> set b64chars" by (simp add: b64chars_def)
  moreover have "enc6 w \<in> set b64chars"
    unfolding enc6_def using and63_lt [of w] by (simp add: b64chars_length)
  ultimately show ?thesis by auto
qed

text \<open>The masks as truncations, so that a bit of each expression is read off by position.\<close>

lemma and63: "(w::byte) AND 63 = take_bit 6 w"
  by (simp add: take_bit_eq_mask mask_eq_exp_minus_1)

lemma and15: "(w::byte) AND 15 = take_bit 4 w"
  by (simp add: take_bit_eq_mask mask_eq_exp_minus_1)

lemma and3: "(w::byte) AND 3 = take_bit 2 w"
  by (simp add: take_bit_eq_mask mask_eq_exp_minus_1)

lemma bit_byte_high: "8 \<le> n \<Longrightarrow> \<not> bit (b::byte) n"
  using bit_imp_le_length [of b n] by auto

lemma Suc_Suc_diff: "2 \<le> n \<Longrightarrow> Suc (Suc (n - 2)) = n"
  by simp

lemmas bitfacts = bit_simps bit_byte_high Suc_Suc_diff

lemma byte1:
  "push_bit 2 (drop_bit 2 (a::byte) AND 63)
     OR drop_bit 4 ((push_bit 4 (a AND 3) OR drop_bit 4 b) AND 63) = a"
  unfolding and63 and3 and15
  apply (rule bit_word_eqI)
  subgoal for n
    by (cases "n < 2"; cases "n < 4"; cases "n < 6") (auto simp: bitfacts)
  done

lemma byte2:
  "push_bit 4 (((push_bit 4 ((a::byte) AND 3) OR drop_bit 4 b) AND 63) AND 15)
     OR drop_bit 2 ((push_bit 2 (b AND 15) OR drop_bit 6 c) AND 63) = b"
  unfolding and63 and3 and15
  apply (rule bit_word_eqI)
  subgoal for n
    by (cases "n < 2"; cases "n < 4"; cases "n < 6") (auto simp: bitfacts)
  done

lemma byte3:
  "push_bit 6 (((push_bit 2 ((b::byte) AND 15) OR drop_bit 6 c) AND 63) AND 3)
     OR ((c AND 63) AND 63) = c"
  unfolding and63 and3 and15
  apply (rule bit_word_eqI)
  subgoal for n
    by (cases "n < 2"; cases "n < 4"; cases "n < 6") (auto simp: bitfacts)
  done

lemma byte2_last:
  "push_bit 4 (((push_bit 4 ((a::byte) AND 3) OR drop_bit 4 b) AND 63) AND 15)
     OR drop_bit 2 ((push_bit 2 (b AND 15)) AND 63) = b"
  unfolding and63 and3 and15
  apply (rule bit_word_eqI)
  subgoal for n
    by (cases "n < 2"; cases "n < 4"; cases "n < 6") (auto simp: bitfacts)
  done

lemma byte1_last:
  "push_bit 2 (drop_bit 2 (a::byte) AND 63) OR drop_bit 4 ((push_bit 4 (a AND 3)) AND 63) = a"
  unfolding and63 and3 and15
  apply (rule bit_word_eqI)
  subgoal for n
    by (cases "n < 2"; cases "n < 4"; cases "n < 6") (auto simp: bitfacts)
  done

lemma dec_group_enc:
  "dec_group (enc6 (drop_bit 2 a)) (enc6 (push_bit 4 (a AND 3) OR drop_bit 4 b))
      (enc6 (push_bit 2 (b AND 15) OR drop_bit 6 c)) (enc6 (c AND 63)) = Some [a, b, c]"
  by (simp only: dec_group_def dec6_enc6 prod.case option.case byte1 byte2 byte3)

lemma dec_last_enc1:
  "dec_last (enc6 (drop_bit 2 a)) (enc6 (push_bit 4 (a AND 3))) CHR ''='' CHR ''='' = Some [a]"
  by (simp only: dec_last_def dec6_enc6 simp_thms if_True prod.case option.case byte1_last)

lemma dec_last_enc2:
  "dec_last (enc6 (drop_bit 2 a)) (enc6 (push_bit 4 (a AND 3) OR drop_bit 4 b))
      (enc6 (push_bit 2 (b AND 15))) CHR ''='' = Some [a, b]"
  by (simp only: dec_last_def dec6_enc6 enc6_not_pad simp_thms if_True if_False
        prod.case option.case byte1 byte2_last)

lemma dec_last_enc3:
  "dec_last (enc6 s1) (enc6 s2) (enc6 s3) (enc6 s4) =
     dec_group (enc6 s1) (enc6 s2) (enc6 s3) (enc6 s4)"
  by (simp only: dec_last_def enc6_not_pad simp_thms if_False)

lemma base64_roundtrip: "base64_decode (toBase64 bs) = Some bs"
proof (induction bs rule: toBase64.induct)
  case 1
  show ?case by simp
next
  case (2 a)
  show ?case by (simp only: toBase64.simps base64_decode.simps dec_last_enc1)
next
  case (3 a b)
  show ?case by (simp only: toBase64.simps base64_decode.simps dec_last_enc2)
next
  case (4 a b c rest)
  show ?case
  proof (cases "toBase64 rest")
    case Nil
    have "rest = []"
    proof (cases rest rule: toBase64.cases)
    qed (use Nil in simp_all)
    then show ?thesis
      by (simp only: toBase64.simps base64_decode.simps append_Cons append_Nil
            dec_last_enc3 dec_group_enc)
  next
    case (Cons x xs)
    from 4 Cons have ih: "base64_decode (x # xs) = Some rest" by simp
    show ?thesis
      by (simp only: toBase64.simps base64_decode.simps append_Cons append_Nil Cons
            dec_group_enc option.case ih option.map)
  qed
qed

section \<open>Selection and attributes\<close>

lemma select_is_element: "x \<in> set (select t y) \<Longrightarrow> \<exists>as cs. x = Element t as cs"
proof (induction y)
  case (Text s)
  then show ?case by simp
next
  case (Element n as cs)
  then show ?case by (auto split: if_splits)
qed

lemma select_set_attr: "select t (set_attr t k v x) = map (set_attr t k v) (select t x)"
proof (induction x)
  case (Text s)
  show ?case by simp
next
  case (Element n as cs)
  have "map (\<lambda>c. select t (set_attr t k v c)) cs =
        map (\<lambda>c. map (set_attr t k v) (select t c)) cs"
    by (rule map_cong [OF refl]) (rule Element.IH)
  then have "concat (map (\<lambda>c. select t (set_attr t k v c)) cs) =
             concat (map (\<lambda>c. map (set_attr t k v) (select t c)) cs)"
    by (rule arg_cong)
  then show ?case by (simp add: map_concat comp_def)
qed

lemma select_all_set_attr_all:
  "select_all t (set_attr_all t k v d) = map (set_attr t k v) (select_all t d)"
  by (simp add: select_all_def set_attr_all_def map_concat select_set_attr comp_def)

lemma select_all_is_element: "x \<in> set (select_all t d) \<Longrightarrow> \<exists>as cs. x = Element t as cs"
  by (auto simp: select_all_def dest: select_is_element)

lemma map_of_set_attrib: "map_of (set_attrib k v as) k = Some v"
  by (induction as) auto

lemma attr_set_attr:
  assumes "x \<in> set (select_all t d)"
  shows "attr [set_attr t k v x] k = Some v"
proof -
  from assms obtain as cs where "x = Element t as cs"
    using select_all_is_element by blast
  then show ?thesis by (simp add: attr_def map_of_set_attrib)
qed

section \<open>Image inlining in the header and footer blocks\<close>

lemma inlineImages_none:
  "select_all ''img'' (cheerio_load env fragment) = [] \<Longrightarrow>
   inlineImages env fragment s = (Inr (cheerio_load env fragment), s)"
  by (simp add: inlineImages_def return_job_def)

lemma inlineImages_no_src:
  "select_all ''img'' (cheerio_load env fragment) = e # es \<Longrightarrow> map_of (attribs e) ''src'' = None \<Longrightarrow>
   inlineImages env fragment s = (Inr (cheerio_load env fragment), s)"
  by (simp add: inlineImages_def return_job_def attr_def)

lemma inlineImages_fetch:
  "select_all ''img'' (cheerio_load env fragment) = e # es \<Longrightarrow> map_of (attribs e) ''src'' = Some u \<Longrightarrow>
   inlineImages env fragment s =
     (case axios_get env u of
        Inl err \<Rightarrow> (Inl err, emit (AxiosGet u) s)
      | Inr B \<Rightarrow> (Inr (set_attr_all ''img'' ''src'' (''data:image/png;base64,'' @ toBase64 B) (cheerio_load env fragment)), emit (AxiosGet u) s))"
  by (simp add: inlineImages_def return_job_def attr_def await_def getImageBase64_def split: sum.splits)


lemmas block_defs = headerBlock_def footerBlock_def await_def assign_def return_job_def emit_def

text \<open>
  C4. A fragment without image elements: the block fetches nothing (the trace is that of
  the state before) and the template assigned is the serialisation of the parsed
  fragment, the document being untouched. The same holds for the header and for the
  footer block.
\<close>

theorem inline_without_images:
  assumes "fragment \<noteq> []" and "heap s r = Some opts"
    and "select_all ''img'' (cheerio_load env fragment) = []"
  shows "headerBlock env r (Some fragment) s =
           (Inr (), s\<lparr>heap := (heap s)(r \<mapsto> opts\<lparr>displayHeaderFooter := Some True,
              headerTemplate := Some (cheerio_html env (cheerio_load env fragment))\<rparr>)\<rparr>)
       \<and> footerBlock env r (Some fragment) s =
           (Inr (), s\<lparr>heap := (heap s)(r \<mapsto> opts\<lparr>displayHeaderFooter := Some True,
              footerTemplate := Some (cheerio_html env (cheerio_load env fragment))\<rparr>)\<rparr>)"
  using assms by (simp add: block_defs inlineImages_none)

text \<open>
  C3. A fragment with exactly one image element, whose source URL serves the bytes
  \<open>B\<close>: the template assigned is the serialisation of a document whose one image has
  the source \<open>data:image/png;base64,p\<close>, and decoding \<open>p\<close> gives back exactly \<open>B\<close>.
\<close>

theorem inline_one_image:
  assumes "fragment \<noteq> []" and "heap s r = Some opts"
    and "select_all ''img'' (cheerio_load env fragment) = [e]"
    and "attr [e] ''src'' = Some u"
    and "axios_get env u = Inr B"
  shows "\<exists>doc e' p.
           headerBlock env r (Some fragment) s =
             (Inr (), s\<lparr>heap := (heap s)(r \<mapsto> opts\<lparr>displayHeaderFooter := Some True,
                headerTemplate := Some (cheerio_html env doc)\<rparr>),
                trace := trace s @ [AxiosGet u]\<rparr>)
         \<and> footerBlock env r (Some fragment) s =
             (Inr (), s\<lparr>heap := (heap s)(r \<mapsto> opts\<lparr>displayHeaderFooter := Some True,
                footerTemplate := Some (cheerio_html env doc)\<rparr>),
                trace := trace s @ [AxiosGet u]\<rparr>)
         \<and> select_all ''img'' doc = [e']
         \<and> attr [e'] ''src'' = Some (''data:image/png;base64,'' @ p)
         \<and> base64_decode p = Some B"
proof -
  let ?uri = "''data:image/png;base64,'' @ toBase64 B"
  let ?doc = "set_attr_all ''img'' ''src'' ?uri (cheerio_load env fragment)"
  from assms(4) have src: "map_of (attribs e) ''src'' = Some u"
    by (simp add: attr_def)
  have sel: "select_all ''img'' ?doc = [set_attr ''img'' ''src'' ?uri e]"
    by (simp add: select_all_set_attr_all assms(3))
  have "e \<in> set (select_all ''img'' (cheerio_load env fragment))"
    by (simp add: assms(3))
  then have at: "attr [set_attr ''img'' ''src'' ?uri e] ''src'' = Some ?uri"
    by (rule attr_set_attr)
  have hd: "headerBlock env r (Some fragment) s =
             (Inr (), s\<lparr>heap := (heap s)(r \<mapsto> opts\<lparr>displayHeaderFooter := Some True,
                headerTemplate := Some (cheerio_html env ?doc)\<rparr>),
                trace := trace s @ [AxiosGet u]\<rparr>)"
    using assms(1,2,5) by (simp add: block_defs inlineImages_fetch [OF assms(3) src])
  have ft: "footerBlock env r (Some fragment) s =
             (Inr (), s\<lparr>heap := (heap s)(r \<mapsto> opts\<lparr>displayHeaderFooter := Some True,
                footerTemplate := Some (cheerio_html env ?doc)\<rparr>),
                trace := trace s @ [AxiosGet u]\<rparr>)"
    using assms(1,2,5) by (simp add: block_defs inlineImages_fetch [OF assms(3) src])
  from hd ft sel at base64_roundtrip [of B] show ?thesis by blast
qed

text \<open>
  The blocks on a fragment whose first image has no source, and on one whose first image
  has one; the images of a document after the attribute has been written.
\<close>

lemma blocks_without_src:
  assumes "fragment \<noteq> []" and "heap s r = Some opts"
    and "select_all ''img'' (cheerio_load env fragment) = e # es"
    and "attr (e # es) ''src'' = None"
  shows "headerBlock env r (Some fragment) s =
           (Inr (), s\<lparr>heap := (heap s)(r \<mapsto> opts\<lparr>displayHeaderFooter := Some True,
              headerTemplate := Some (cheerio_html env (cheerio_load env fragment))\<rparr>)\<rparr>)"
    and "footerBlock env r (Some fragment) s =
           (Inr (), s\<lparr>heap := (heap s)(r \<mapsto> opts\<lparr>displayHeaderFooter := Some True,
              footerTemplate := Some (cheerio_html env (cheerio_load env fragment))\<rparr>)\<rparr>)"
  using assms by (simp_all add: block_defs inlineImages_no_src attr_def)

lemma blocks_fetch:
  assumes "fragment \<noteq> []" and "heap s r = Some opts"
    and "select_all ''img'' (cheerio_load env fragment) = e # es"
    and "attr (e # es) ''src'' = Some u"
  shows "headerBlock env r (Some fragment) s =
     (case axios_get env u of
        Inl err \<Rightarrow>
          (Inl err, s\<lparr>heap := (heap s)(r \<mapsto> opts\<lparr>displayHeaderFooter := Some True\<rparr>),
                      trace := trace s @ [AxiosGet u]\<rparr>)
      | Inr B \<Rightarrow>
          (Inr (), s\<lparr>heap := (heap s)(r \<mapsto> opts\<lparr>displayHeaderFooter := Some True,
              headerTemplate := Some (cheerio_html env
                (set_attr_all ''img'' ''src'' (''data:image/png;base64,'' @ toBase64 B)
                   (cheerio_load env fragment)))\<rparr>),
              trace := trace s @ [AxiosGet u]\<rparr>))"
    and "footerBlock env r (Some fragment) s =
     (case axios_get env u of
        Inl err \<Rightarrow>
          (Inl err, s\<lparr>heap := (heap s)(r \<mapsto> opts\<lparr>displayHeaderFooter := Some True\<rparr>),
                      trace := trace s @ [AxiosGet u]\<rparr>)
      | Inr B \<Rightarrow>
          (Inr (), s\<lparr>heap := (heap s)(r \<mapsto> opts\<lparr>displayHeaderFooter := Some True,
              footerTemplate := Some (cheerio_html env
                (set_attr_all ''img'' ''src'' (''data:image/png;base64,'' @ toBase64 B)
                   (cheerio_load env fragment)))\<rparr>),
              trace := trace s @ [AxiosGet u]\<rparr>))"
proof -
  from assms(4) have src: "map_of (attribs e) ''src'' = Some u"
    by (simp add: attr_def)
  note fetch = inlineImages_fetch [OF assms(3) src]
  show "headerBlock env r (Some fragment) s =
     (case axios_get env u of
        Inl err \<Rightarrow>
          (Inl err, s\<lparr>heap := (heap s)(r \<mapsto> opts\<lparr>displayHeaderFooter := Some True\<rparr>),
                      trace := trace s @ [AxiosGet u]\<rparr>)
      | Inr B \<Rightarrow>
          (Inr (), s\<lparr>heap := (heap s)(r \<mapsto> opts\<lparr>displayHeaderFooter := Some True,
              headerTemplate := Some (cheerio_html env
                (set_attr_all ''img'' ''src'' (''data:image/png;base64,'' @ toBase64 B)
                   (cheerio_load env fragment)))\<rparr>),
              trace := trace s @ [AxiosGet u]\<rparr>))"
    using assms(1,2) by (simp add: block_defs fetch split: sum.splits)
  show "footerBlock env r (Some fragment) s =
     (case axios_get env u of
        Inl err \<Rightarrow>
          (Inl err, s\<lparr>heap := (heap s)(r \<mapsto> opts\<lparr>displayHeaderFooter := Some True\<rparr>),
                      trace := trace s @ [AxiosGet u]\<rparr>)
      | Inr B \<Rightarrow>
          (Inr (), s\<lparr>heap := (heap s)(r \<mapsto> opts\<lparr>displayHeaderFooter := Some True,
              footerTemplate := Some (cheerio_html env
                (set_attr_all ''img'' ''src'' (''data:image/png;base64,'' @ toBase64 B)
                   (cheerio_load env fragment)))\<rparr>),
              trace := trace s @ [AxiosGet u]\<rparr>))"
    using assms(1,2) by (simp add: block_defs fetch split: sum.splits)
qed

lemma written_to_all_images:
  assumes "doc = set_attr_all ''img'' ''src'' v d"
  shows "length (select_all ''img'' doc) = length (select_all ''img'' d)
       \<and> (\<forall>x \<in> set (select_all ''img'' doc). attr [x] ''src'' = Some v)"
proof -
  have sel: "select_all ''img'' doc = map (set_attr ''img'' ''src'' v) (select_all ''img'' d)"
    unfolding assms by (rule select_all_set_attr_all)
  have "attr [x] ''src'' = Some v" if "x \<in> set (select_all ''img'' doc)" for x
  proof -
    from that obtain y where "y \<in> set (select_all ''img'' d)" and "x = set_attr ''img'' ''src'' v y"
      unfolding sel by auto
    then show ?thesis by (simp add: attr_set_attr)
  qed
  then show ?thesis by (simp add: sel)
qed

lemma example_heap_A4: "heap example_state 1 = Some example_A4"
  by (simp add: example_state_def init_state_def PresetPDFOptions_def example_A4_def)

text \<open>The theorems above at the concrete server.\<close>

theorem inline_without_images_witness:
  "''<p>hi</p>'' \<noteq> []
   \<and> heap example_state 1 = Some example_A4
   \<and> select_all ''img'' (cheerio_load example_env ''<p>hi</p>'') = []
   \<and> headerBlock example_env 1 (Some ''<p>hi</p>'') example_state =
         (Inr (), example_state\<lparr>heap := (heap example_state)(1 \<mapsto>
            example_A4\<lparr>displayHeaderFooter := Some True,
              headerTemplate := Some (cheerio_html example_env
                (cheerio_load example_env ''<p>hi</p>''))\<rparr>)\<rparr>)
   \<and> footerBlock example_env 1 (Some ''<p>hi</p>'') example_state =
         (Inr (), example_state\<lparr>heap := (heap example_state)(1 \<mapsto>
            example_A4\<lparr>displayHeaderFooter := Some True,
              footerTemplate := Some (cheerio_html example_env
                (cheerio_load example_env ''<p>hi</p>''))\<rparr>)\<rparr>)"
proof -
  have h1: "''<p>hi</p>'' \<noteq> []" by simp
  have h3: "select_all ''img'' (cheerio_load example_env ''<p>hi</p>'') = []"
    by (simp add: example_env_def wrap_document_def select_all_def)
  note c = inline_without_images [OF h1 example_heap_A4 h3]
  show ?thesis
    by (intro conjI) (rule h1 example_heap_A4 h3 c [THEN conjunct1] c [THEN conjunct2])+
qed

theorem inline_one_image_witness:
  "''<img src=http://cdn/logo.png>'' \<noteq> []
   \<and> heap example_state 1 = Some example_A4
   \<and> select_all ''img'' (cheerio_load example_env ''<img src=http://cdn/logo.png>'') =
         [Element ''img'' [(''src'', ''http://cdn/logo.png'')] []]
   \<and> attr [Element ''img'' [(''src'', ''http://cdn/logo.png'')] []] ''src'' =
         Some ''http://cdn/logo.png''
   \<and> axios_get example_env ''http://cdn/logo.png'' = Inr [137, 80, 78, 71]
   \<and> (\<exists>doc e' p.
           headerBlock example_env 1 (Some ''<img src=http://cdn/logo.png>'') example_state =
             (Inr (), example_state\<lparr>heap := (heap example_state)(1 \<mapsto>
                example_A4\<lparr>displayHeaderFooter := Some True,
                  headerTemplate := Some (cheerio_html example_env doc)\<rparr>),
                trace := trace example_state @ [AxiosGet ''http://cdn/logo.png'']\<rparr>)
         \<and> footerBlock example_env 1 (Some ''<img src=http://cdn/logo.png>'') example_state =
             (Inr (), example_state\<lparr>heap := (heap example_state)(1 \<mapsto>
                example_A4\<lparr>displayHeaderFooter := Some True,
                  footerTemplate := Some (cheerio_html example_env doc)\<rparr>),
                trace := trace example_state @ [AxiosGet ''http://cdn/logo.png'']\<rparr>)
         \<and> select_all ''img'' doc = [e']
         \<and> attr [e'] ''src'' = Some (''data:image/png;base64,'' @ p)
         \<and> base64_decode p = Some [137, 80, 78, 71])"
proof -
  have h1: "''<img src=http://cdn/logo.png>'' \<noteq> []" by simp
  have h3: "select_all ''img'' (cheerio_load example_env ''<img src=http://cdn/logo.png>'') =
         [Element ''img'' [(''src'', ''http://cdn/logo.png'')] []]"
    by (simp add: example_env_def wrap_document_def select_all_def)
  have h4: "attr [Element ''img'' [(''src'', ''http://cdn/logo.png'')] []] ''src'' =
         Some ''http://cdn/logo.png''"
    by (simp add: attr_def)
  have h5: "axios_get example_env ''http://cdn/logo.png'' = Inr [137, 80, 78, 71]"
    by (simp add: example_env_def)
  note c = inline_one_image [OF h1 example_heap_A4 h3 h4 h5]
  show ?thesis
    by (intro conjI) (rule h1 example_heap_A4 h3 h4 h5 c)+
qed

section \<open>The steps of a job\<close>

lemma inlineImages_summary:
  assumes "inlineImages env fragment s = (res, s')"
  shows "\<exists>evs. s' = s\<lparr>trace := trace s @ evs\<rparr>
         \<and> ((\<exists>doc. res = Inr doc
                \<and> (evs = [] \<or> (\<exists>u B. evs = [AxiosGet u] \<and> axios_get env u = Inr B)))
            \<or> (\<exists>u e. res = Inl e \<and> evs = [AxiosGet u] \<and> axios_get env u = Inl e))"
proof (cases "select_all ''img'' (cheerio_load env fragment)")
  case Nil
  with assms have "s' = s\<lparr>trace := trace s @ []\<rparr>" "res = Inr (cheerio_load env fragment)"
    by (simp_all add: inlineImages_none)
  then show ?thesis by (intro exI [of _ "[]"]) simp
next
  case (Cons e es)
  show ?thesis
  proof (cases "map_of (attribs e) ''src''")
    case None
    with assms Cons have "s' = s\<lparr>trace := trace s @ []\<rparr>" "res = Inr (cheerio_load env fragment)"
      by (simp_all add: inlineImages_no_src)
    then show ?thesis by (intro exI [of _ "[]"]) simp
  next
    case (Some u)
    show ?thesis
    proof (cases "axios_get env u")
      case (Inl err)
      with assms have "s' = s\<lparr>trace := trace s @ [AxiosGet u]\<rparr>" "res = Inl err"
        by (simp_all add: inlineImages_fetch [OF Cons Some] emit_def)
      with Inl show ?thesis by (intro exI [of _ "[AxiosGet u]"]) simp
    next
      case (Inr B)
      with assms have "s' = s\<lparr>trace := trace s @ [AxiosGet u]\<rparr>" "\<exists>doc. res = Inr doc"
        by (auto simp: inlineImages_fetch [OF Cons Some] emit_def)
      with Inr show ?thesis by (intro exI [of _ "[AxiosGet u]"]) auto
    qed
  qed
qed

lemma headerBlock_summary:
  assumes "headerBlock env r h s = (res, s')"
  shows "block_post env r s res s'"
proof (cases "h = None \<or> h = Some []")
  case True
  with assms have "s' = s" "res = Inr ()"
    by (auto simp: headerBlock_def return_job_def)
  then show ?thesis by (simp add: block_post_def)
next
  case False
  then obtain f where h: "h = Some f" "f \<noteq> []" by auto
  obtain r1 s1 where inl: "inlineImages env f (s\<lparr>heap := (heap s)(r := map_option (\<lambda>opts. opts\<lparr>displayHeaderFooter := Some True\<rparr>) (heap s r))\<rparr>) = (r1, s1)"
    by (cases "inlineImages env f (s\<lparr>heap := (heap s)(r := map_option (\<lambda>opts. opts\<lparr>displayHeaderFooter := Some True\<rparr>) (heap s r))\<rparr>)")
  from inlineImages_summary [OF inl] assms h inl show ?thesis
    by (auto simp: headerBlock_def await_def assign_def return_job_def block_post_def split: sum.splits)
qed

lemma footerBlock_summary:
  assumes "footerBlock env r h s = (res, s')"
  shows "block_post env r s res s'"
proof (cases "h = None \<or> h = Some []")
  case True
  with assms have "s' = s" "res = Inr ()"
    by (auto simp: footerBlock_def return_job_def)
  then show ?thesis by (simp add: block_post_def)
next
  case False
  then obtain f where h: "h = Some f" "f \<noteq> []" by auto
  obtain r1 s1 where inl: "inlineImages env f (s\<lparr>heap := (heap s)(r := map_option (\<lambda>opts. opts\<lparr>displayHeaderFooter := Some True\<rparr>) (heap s r))\<rparr>) = (r1, s1)"
    by (cases "inlineImages env f (s\<lparr>heap := (heap s)(r := map_option (\<lambda>opts. opts\<lparr>displayHeaderFooter := Some True\<rparr>) (heap s r))\<rparr>)")
  from inlineImages_summary [OF inl] assms h inl show ?thesis
    by (auto simp: footerBlock_def await_def assign_def return_job_def block_post_def split: sum.splits)
qed


lemma getPDFOptions_summary:
  assumes "getPDFOptions cfg name s = (res, s')"
  shows "resolve_post cfg name s res s'"
  using assms
  by (auto simp: getPDFOptions_def resolve_post_def emit_def Let_def split: option.splits)

lemmas job_defs = runOnPage_def getJob_def await_def goto_def pdf_def return_job_def emit_def

lemmas job_posts = block_post_def resolve_post_def

lemmas job_splits = option.splits sum.splits prod.splits if_splits

lemma getJob_frame:
  assumes "runOnPage (getJob env cfg url name h f) s = (res, s')"
  shows "preset s' = preset s \<and> next_ref s \<le> next_ref s'
       \<and> (\<forall>a<next_ref s. heap s' a = heap s a)"
  using assms
  by (auto simp: job_defs job_posts split: job_splits
        dest!: headerBlock_summary footerBlock_summary getPDFOptions_summary)

lemma getJob_result:
  assumes "runOnPage (getJob env cfg url name h f) s = (res, s')"
  shows "(\<forall>e. page_goto env url = Some e \<longrightarrow> res = Inl e)
       \<and> (\<forall>u e. AxiosGet u \<in> set (new_events s s') \<longrightarrow> axios_get env u = Inl e \<longrightarrow> res = Inl e)
       \<and> (\<forall>c opts. Pdf c opts \<in> set (new_events s s') \<longrightarrow> c = Url url \<and> res = page_pdf env c opts)
       \<and> (\<forall>b. res = Inr b \<longrightarrow> (\<exists>opts. Pdf (Url url) opts \<in> set (new_events s s')))"
  using assms
  by (auto simp: job_defs job_posts new_events_def split: job_splits
        dest!: headerBlock_summary footerBlock_summary getPDFOptions_summary)


lemma getJob_resolution:
  assumes "runOnPage (getJob env cfg url name h f) s = (res, s')"
    and "page_goto env url = None" and "lookup_preset cfg (preset s) name = None"
  shows "res = Inl (OptionsError name)"
  using assms
  by (auto simp: job_defs job_posts split: job_splits
        dest!: headerBlock_summary footerBlock_summary getPDFOptions_summary)

section \<open>The POST handler\<close>

lemma postJob_run:
  "runOnPage (postJob env html r) s =
     (case page_setContent env html of
        Some e \<Rightarrow> (Inl e, s\<lparr>trace := trace s @ [Lease, SetContent html, Release]\<rparr>)
      | None \<Rightarrow>
          (case heap s r of
             None \<Rightarrow> (Inl (PageError []), s\<lparr>trace := trace s @ [Lease, SetContent html, Release]\<rparr>)
           | Some opts \<Rightarrow>
               (page_pdf env (Html html) opts,
                s\<lparr>trace := trace s @ [Lease, SetContent html, Pdf (Html html) opts, Release]\<rparr>)))"
  by (simp add: runOnPage_def postJob_def await_def setContent_def pdf_def emit_def
        split: option.splits sum.splits)

lemma postHeaderBlock_run:
  "postHeaderBlock r h s =
     (Inr (), if supplied h
        then s\<lparr>heap := (heap s)(r := map_option
               (\<lambda>opts. opts\<lparr>displayHeaderFooter := Some True, headerTemplate := h\<rparr>) (heap s r))\<rparr>
        else s)"
  by (auto simp: postHeaderBlock_def supplied_def await_def assign_def return_job_def
        option.map_comp comp_def split: option.splits)

lemma postFooterBlock_run:
  "postFooterBlock r f s =
     (Inr (), if supplied f
        then s\<lparr>heap := (heap s)(r := map_option
               (\<lambda>opts. opts\<lparr>displayHeaderFooter := Some True, footerTemplate := f\<rparr>) (heap s r))\<rparr>
        else s)"
  by (auto simp: postFooterBlock_def supplied_def await_def assign_def return_job_def
        option.map_comp comp_def split: option.splits)

lemma postOptions_fail:
  assumes "lookup_preset cfg (preset s) name = None
         \<or> (\<exists>r. lookup_preset cfg (preset s) name = Some r \<and> heap s r = None)"
  shows "postOptions cfg name h f s = (Inl (OptionsError name), emit (GetPDFOptions name) s)"
  using assms
  by (auto simp: postOptions_def await_def getPDFOptions_def Let_def)

lemma postOptions_ok:
  assumes "lookup_preset cfg (preset s) name = Some r" and "heap s r = Some base"
  shows "postOptions cfg name h f s =
     (Inr (next_ref s),
      s\<lparr>trace := trace s @ [GetPDFOptions name],
        heap := (heap s)(next_ref s \<mapsto> base\<lparr>
           displayHeaderFooter :=
             (if supplied h \<or> supplied f then Some True else displayHeaderFooter base),
           headerTemplate := (if supplied h then h else headerTemplate base),
           footerTemplate := (if supplied f then f else footerTemplate base)\<rparr>),
        next_ref := Suc (next_ref s)\<rparr>)"
  using assms
  by (cases s, cases base)
     (simp add: postOptions_def await_def getPDFOptions_def Let_def emit_def return_job_def
        postHeaderBlock_run postFooterBlock_run)


lemma postHandler_cases [consumes 1, case_names invalid unresolved rendered]:
  assumes run: "postHandler env cfg request_body s = (rep, s')"
  obtains
    (invalid) "s' = s" and "statusCode rep = 400"
      and "request_body = None \<or> (\<exists>body. request_body = Some body
             \<and> (b_html body = None \<or> b_html body = Some []))"
  | (unresolved) body html name where
      "request_body = Some body" and "b_html body = Some html" and "html \<noteq> []"
      and "name = (case b_pdf_option body of None \<Rightarrow> defaultPresetPdfOptionsName cfg
                   | Some n \<Rightarrow> n)"
      and "lookup_preset cfg (preset s) name = None
         \<or> (\<exists>r. lookup_preset cfg (preset s) name = Some r \<and> heap s r = None)"
      and "rep = frameworkError (OptionsError name)"
      and "s' = emit (GetPDFOptions name) s"
  | (rendered) body html name r base opts s1 res where
      "request_body = Some body" and "b_html body = Some html" and "html \<noteq> []"
      and "name = (case b_pdf_option body of None \<Rightarrow> defaultPresetPdfOptionsName cfg
                   | Some n \<Rightarrow> n)"
      and "lookup_preset cfg (preset s) name = Some r" and "heap s r = Some base"
      and "opts = base\<lparr>
             displayHeaderFooter :=
               (if supplied (b_header body) \<or> supplied (b_footer body) then Some True
                else displayHeaderFooter base),
             headerTemplate :=
               (if supplied (b_header body) then b_header body else headerTemplate base),
             footerTemplate :=
               (if supplied (b_footer body) then b_footer body else footerTemplate base)\<rparr>"
      and "s1 = s\<lparr>trace := trace s @ [GetPDFOptions name],
                   heap := (heap s)(next_ref s \<mapsto> opts),
                   next_ref := Suc (next_ref s)\<rparr>"
      and "runOnPage (postJob env html (next_ref s)) s1 = (res, s')"
      and "rep = (case res of
                    Inr buffer \<Rightarrow> pdfReply buffer
                  | Inl error \<Rightarrow> \<lparr>statusCode = 500, headers = [],
                                   payload = Json [(''error'', JError error)]\<rparr>)"
proof (cases "request_body = None \<or> (\<exists>body. request_body = Some body
             \<and> (b_html body = None \<or> b_html body = Some []))")
  case True
  with run have "s' = s" "statusCode rep = 400"
    by (auto simp: postHandler_def badRequest_def)
  then show ?thesis using True by (rule invalid)
next
  case False
  then obtain body html where body: "request_body = Some body" "b_html body = Some html"
    and html: "html \<noteq> []" by auto
  define name where "name = (case b_pdf_option body of
      None \<Rightarrow> defaultPresetPdfOptionsName cfg | Some n \<Rightarrow> n)"
  from run body html have step:
    "(case postOptions cfg name (b_header body) (b_footer body) s of
        (Inl e, s1) \<Rightarrow> (frameworkError e, s1)
      | (Inr pdfOptions, s1) \<Rightarrow>
          (case runOnPage (postJob env html pdfOptions) s1 of
             (Inr buffer, s2) \<Rightarrow> (pdfReply buffer, s2)
           | (Inl error, s2) \<Rightarrow>
               (\<lparr>statusCode = 500, headers = [],
                 payload = Json [(''error'', JError error)]\<rparr>, s2))) = (rep, s')"
    by (simp add: postHandler_def name_def)
  show ?thesis
  proof (cases "lookup_preset cfg (preset s) name = None
         \<or> (\<exists>r. lookup_preset cfg (preset s) name = Some r \<and> heap s r = None)")
    case True
    from step have "rep = frameworkError (OptionsError name)" "s' = emit (GetPDFOptions name) s"
      by (simp_all add: postOptions_fail [OF True])
    with body html name_def True show ?thesis by (intro unresolved [of body html name]) simp_all
  next
    case False
    then obtain r base where r: "lookup_preset cfg (preset s) name = Some r"
      and base: "heap s r = Some base" by auto
    define opts where "opts = base\<lparr>
             displayHeaderFooter :=
               (if supplied (b_header body) \<or> supplied (b_footer body) then Some True
                else displayHeaderFooter base),
             headerTemplate :=
               (if supplied (b_header body) then b_header body else headerTemplate base),
             footerTemplate :=
               (if supplied (b_footer body) then b_footer body else footerTemplate base)\<rparr>"
    define s1 where "s1 = s\<lparr>trace := trace s @ [GetPDFOptions name],
                   heap := (heap s)(next_ref s \<mapsto> opts),
                   next_ref := Suc (next_ref s)\<rparr>"
    obtain res s2 where job: "runOnPage (postJob env html (next_ref s)) s1 = (res, s2)"
      by (cases "runOnPage (postJob env html (next_ref s)) s1")
    from step job have "s2 = s'"
      and "rep = (case res of
                    Inr buffer \<Rightarrow> pdfReply buffer
                  | Inl error \<Rightarrow> \<lparr>statusCode = 500, headers = [],
                                   payload = Json [(''error'', JError error)]\<rparr>)"
      by (auto simp: postOptions_ok [OF r base] opts_def [symmetric] s1_def [symmetric]
            split: sum.splits)
    with body html name_def r base opts_def s1_def job show ?thesis
      by (intro rendered [of body html name r base opts s1 res]) simp_all
  qed
qed

lemma postHandler_frame:
  assumes "postHandler env cfg request_body s = (rep, s')"
  shows "preset s' = preset s \<and> next_ref s \<le> next_ref s'
       \<and> (\<forall>a<next_ref s. heap s' a = heap s a)"
  using assms
proof (cases rule: postHandler_cases)
  case invalid
  then show ?thesis by simp
next
  case (unresolved body html name)
  then show ?thesis by (simp add: emit_def)
next
  case (rendered body html name r base opts s1 res)
  from rendered(9) show ?thesis
    unfolding postJob_run rendered(8)
    by (auto split: option.splits)
qed

lemma postHandler_result:
  assumes "postHandler env cfg request_body s = (rep, s')"
    and "Pdf c opts \<in> set (new_events s s')" and "page_pdf env c opts = Inr buffer"
  shows "rep = pdfReply buffer"
  using assms(1)
proof (cases rule: postHandler_cases)
  case invalid
  with assms(2) show ?thesis by (simp add: new_events_def)
next
  case (unresolved body html name)
  with assms(2) show ?thesis by (simp add: new_events_def emit_def)
next
  case (rendered body html name r base opts' s1 res)
  from rendered(9) assms(2,3) have "res = Inr buffer"
    unfolding postJob_run rendered(8)
    by (auto simp: new_events_def split: option.splits)
  with rendered(10) show ?thesis by simp
qed

text \<open>
  C7. A by-HTML request with a body and a non-empty \<open>html\<close>, whose preset resolves to
  the record \<open>base\<close>: the option object of the request has the header and footer strings
  that are supplied (present and not empty) as its templates, verbatim, with
  \<open>displayHeaderFooter\<close> true as soon as one is supplied, and the values of the preset
  in the fields that are not supplied. The events of the request are the resolution,
  the lease, \<open>setContent\<close>, the PDF call with these options when the content was set,
  and the release: there is no fetch.
\<close>

theorem post_templates_verbatim:
  assumes "request_body = Some body" and "b_html body = Some html" and "html \<noteq> []"
    and "name = (case b_pdf_option body of None \<Rightarrow> defaultPresetPdfOptionsName cfg | Some n \<Rightarrow> n)"
    and "lookup_preset cfg (preset s) name = Some r" and "heap s r = Some base"
    and "opts = base\<lparr>
           displayHeaderFooter :=
             (if supplied (b_header body) \<or> supplied (b_footer body) then Some True
              else displayHeaderFooter base),
           headerTemplate :=
             (if supplied (b_header body) then b_header body else headerTemplate base),
           footerTemplate :=
             (if supplied (b_footer body) then b_footer body else footerTemplate base)\<rparr>"
    and "postHandler env cfg request_body s = (rep, s')"
  shows "heap s' (next_ref s) = Some opts
       \<and> new_events s s' =
           [GetPDFOptions name, Lease, SetContent html]
           @ (if page_setContent env html = None then [Pdf (Html html) opts] else [])
           @ [Release]"
  using assms(8)
proof (cases rule: postHandler_cases)
  case invalid
  with assms(1,2,3) show ?thesis by auto
next
  case (unresolved body' html' name')
  with assms(1-6) show ?thesis by auto
next
  case (rendered body' html' name' r' base' opts' s1 res)
  with assms(1-7) have eq: "html' = html" "name' = name" "opts' = opts" by simp_all
  from rendered(9) show ?thesis
    unfolding postJob_run rendered(8) eq
    by (auto simp: new_events_def split: option.splits)
qed

section \<open>Runs of the concrete server\<close>

lemma example_preset: "preset example_state =
  [(''A4headerfooter'', 8), (''landscape'', 7), (''bottommargin'', 6),
   (''nomargin'', 5), (''A3L'', 4), (''A4L'', 3), (''A3'', 2), (''A4'', 1), (''DEFAULT'', 0)]"
  by (simp add: example_state_def init_state_def PresetPDFOptions_def)

lemma example_next_ref: "next_ref example_state = 9"
  by (simp add: example_state_def init_state_def PresetPDFOptions_def)

lemma example_trace: "trace example_state = []"
  by (simp add: example_state_def init_state_def PresetPDFOptions_def)

lemma example_lookup_A4: "lookup_preset example_config (preset example_state) ''A4'' = Some 1"
  by (simp add: example_preset lookup_preset_def)

lemma example_lookup_DEFAULT: "lookup_preset example_config (preset example_state) ''DEFAULT'' = Some 0"
  by (simp add: example_preset lookup_preset_def)

lemma example_heap_A4_Suc: "heap example_state (Suc 0) = Some example_A4"
  using example_heap_A4 by simp

lemma example_heap_DEFAULT: "heap example_state 0 \<noteq> None"
  by (simp add: example_state_def init_state_def PresetPDFOptions_def)

lemma example_env_facts:
  "cheerio_load example_env ''<img src=http://cdn/logo.png>'' =
     wrap_document [Element ''img'' [(''src'', ''http://cdn/logo.png'')] []]"
  "cheerio_load example_env ''<img src=http://cdn/b.png>'' =
     wrap_document [Element ''img'' [(''src'', ''http://cdn/b.png'')] []]"
  "axios_get example_env ''http://cdn/logo.png'' = Inr [137, 80, 78, 71]"
  "axios_get example_env ''http://cdn/b.png'' = Inl (AxiosError ''ECONNREFUSED'')"
  "page_goto example_env ''http://site/'' = None"
  "page_setContent example_env html = None"
  "page_pdf example_env c opts = Inr [37, 80, 68, 70]"
  by (simp_all add: example_env_def)

lemma example_default_name: "defaultPresetPdfOptionsName example_config = ''DEFAULT''"
  by (simp add: example_config_def)

lemmas eval_defs = getHandler_def runOnPage_def getJob_def await_def goto_def getPDFOptions_def
  headerBlock_def footerBlock_def inlineImages_def getImageBase64_def assign_def pdf_def
  return_job_def emit_def Let_def select_all_def attr_def set_attr_all_def wrap_document_def
  new_events_def

lemmas example_facts = example_default_name example_lookup_A4 example_lookup_DEFAULT example_heap_A4
  example_heap_A4_Suc example_next_ref example_trace example_env_facts

lemma example_get_events:
  "new_events example_state (snd (getHandler example_env example_config example_query example_state)) =
     [Lease, Goto ''http://site/'', GetPDFOptions ''A4'', AxiosGet ''http://cdn/logo.png'',
      Pdf (Url ''http://site/'')
        (example_A4\<lparr>displayHeaderFooter := Some True,
           headerTemplate := Some (cheerio_html example_env
             (set_attr_all ''img'' ''src'' (''data:image/png;base64,'' @ toBase64 [137, 80, 78, 71])
                (cheerio_load example_env ''<img src=http://cdn/logo.png>'')))\<rparr>),
      Release]"
  by (simp add: eval_defs example_query_def example_facts)

lemma failing_get_events:
  "new_events example_state (snd (getHandler example_env example_config failing_query example_state)) =
     [Lease, Goto ''http://site/'', GetPDFOptions ''DEFAULT'', AxiosGet ''http://cdn/b.png'',
      Release]"
  using example_heap_DEFAULT
  by (auto simp add: eval_defs failing_query_def example_facts)

section \<open>A GET request and its header and footer blocks\<close>

text \<open>
  A request by URL whose navigation succeeds and whose preset resolves reaches the header
  block in the state \<open>at_blocks\<close>; the rest of the request is the two blocks, the PDF
  call and the release.
\<close>

lemma await_goto:
  "page_goto env url = None \<Longrightarrow> await (goto env url) f s = f () (emit (Goto url) s)"
  by (simp add: await_def goto_def)

lemma await_getPDFOptions:
  assumes "lookup_preset cfg (preset s) name = Some r" and "heap s r = Some base"
  shows "await (getPDFOptions cfg name) f s =
     f (next_ref s)
       ((emit (GetPDFOptions name) s)\<lparr>heap := (heap s)(next_ref s \<mapsto> base),
          next_ref := Suc (next_ref s)\<rparr>)"
  using assms by (simp add: await_def getPDFOptions_def Let_def)

lemma runOnPage_finish:
  "(case runOnPage m s of
      (Inr buffer, s1) \<Rightarrow> (pdfReply buffer, s1)
    | (Inl error, s1) \<Rightarrow>
        (\<lparr>statusCode = 500, headers = [],
          payload = Json [(''error'', JError error), (''url'', JString url)]\<rparr>, s1)) =
   finish url (m (emit Lease s))"
  by (simp add: runOnPage_def finish_def getReply_def split: prod.splits sum.splits)

lemma getHandler_blocks:
  assumes "q_url query = Some url" and "url \<noteq> []" and "page_goto env url = None"
    and "name = (case q_pdf_option query of None \<Rightarrow> defaultPresetPdfOptionsName cfg | Some n \<Rightarrow> n)"
    and "lookup_preset cfg (preset s) name = Some r" and "heap s r = Some base"
  shows "getHandler env cfg query s =
     finish url
       (await (headerBlock env (next_ref s) (q_header query)) (\<lambda>_.
        await (footerBlock env (next_ref s) (q_footer query)) (\<lambda>_.
        pdf env (Url url) (next_ref s)))
        (at_blocks s url name base))"
proof -
  let ?s1 = "emit (Goto url) (emit Lease s)"
  have reg: "lookup_preset cfg (preset ?s1) name = Some r" "heap ?s1 r = Some base"
    using assms(5,6) by (simp_all add: emit_def)
  have st: "(emit (GetPDFOptions name) ?s1)\<lparr>heap := (heap ?s1)(next_ref s \<mapsto> base),
          next_ref := Suc (next_ref s)\<rparr> = at_blocks s url name base"
    by (simp add: emit_def at_blocks_def)
  have n: "next_ref ?s1 = next_ref s" by (simp add: emit_def)
  have "getHandler env cfg query s =
      finish url (getJob env cfg url name (q_header query) (q_footer query) (emit Lease s))"
    using assms(1,2) by (simp add: getHandler_def Let_def assms(4) [symmetric] runOnPage_finish)
  also have "getJob env cfg url name (q_header query) (q_footer query) (emit Lease s) =
      await (headerBlock env (next_ref s) (q_header query)) (\<lambda>_.
        await (footerBlock env (next_ref s) (q_footer query)) (\<lambda>_.
        pdf env (Url url) (next_ref s)))
        (at_blocks s url name base)"
    unfolding getJob_def await_goto [OF assms(3)] await_getPDFOptions [OF reg] n st ..
  finally show ?thesis .
qed

lemma footerBlock_keeps_header:
  assumes "footerBlock env r f s = (res, s')" and "heap s r = Some opts"
  shows "\<exists>opts'. heap s' r = Some opts' \<and> headerTemplate opts' = headerTemplate opts"
proof (cases "f = None \<or> f = Some []")
  case True
  with assms(1) have "s' = s" by (auto simp: footerBlock_def return_job_def)
  with assms(2) show ?thesis by simp
next
  case False
  then obtain g where f: "f = Some g" "g \<noteq> []" by auto
  let ?s1 = "s\<lparr>heap := (heap s)(r \<mapsto> opts\<lparr>displayHeaderFooter := Some True\<rparr>)\<rparr>"
  obtain res1 s2 where inl: "inlineImages env g ?s1 = (res1, s2)"
    by (cases "inlineImages env g ?s1")
  from inlineImages_summary [OF inl] obtain evs where s2: "s2 = ?s1\<lparr>trace := trace ?s1 @ evs\<rparr>"
    by blast
  from assms f inl s2 show ?thesis
    by (cases res1) (auto simp: footerBlock_def await_def assign_def)
qed

lemma headerBlock_keeps_object:
  assumes "headerBlock env r h s = (res, s')" and "heap s r = Some opts"
  shows "\<exists>opts'. heap s' r = Some opts'"
  using headerBlock_summary [OF assms(1)] assms(2) by (auto simp: block_post_def)

lemma finish_pdf:
  assumes "heap s r = Some opts"
  shows "finish url (pdf env c r s) =
     (getReply url (page_pdf env c opts), s\<lparr>trace := trace s @ [Pdf c opts, Release]\<rparr>)"
  using assms by (simp add: finish_def pdf_def emit_def)

lemma at_blocks_fields:
  "heap (at_blocks s url name base) (next_ref s) = Some base"
  "trace (at_blocks s url name base) = trace s @ [Lease, Goto url, GetPDFOptions name]"
  by (simp_all add: at_blocks_def)

lemma example_selects:
  "select_all ''img'' (cheerio_load example_env ''<img alt=logo>'') =
     [Element ''img'' [(''alt'', ''logo'')] []]"
  "select_all ''img'' (cheerio_load example_env ''<img src=http://cdn/logo.png>'') =
     [Element ''img'' [(''src'', ''http://cdn/logo.png'')] []]"
  "select_all ''img'' (cheerio_load example_env
       ''<p><img src=http://cdn/logo.png><img src=http://cdn/b.png></p>'') =
     [Element ''img'' [(''src'', ''http://cdn/logo.png'')] [],
      Element ''img'' [(''src'', ''http://cdn/b.png'')] []]"
  by (simp_all add: example_env_def wrap_document_def select_all_def)

lemma example_attrs:
  "attr [Element ''img'' [(''alt'', ''logo'')] []] ''src'' = None"
  "attr [Element ''img'' [(''src'', ''http://cdn/logo.png'')] []] ''src'' =
     Some ''http://cdn/logo.png''"
  "attr [Element ''img'' [(''src'', ''http://cdn/logo.png'')] [],
         Element ''img'' [(''src'', ''http://cdn/b.png'')] []] ''src'' =
     Some ''http://cdn/logo.png''"
  by (simp_all add: attr_def)

lemma example_queries:
  "q_url srcless_header_query = Some ''http://site/''"
  "q_url two_images_query = Some ''http://site/''"
  "''A4'' = (case q_pdf_option srcless_header_query of
      None \<Rightarrow> defaultPresetPdfOptionsName example_config | Some n \<Rightarrow> n)"
  "''A4'' = (case q_pdf_option two_images_query of
      None \<Rightarrow> defaultPresetPdfOptionsName example_config | Some n \<Rightarrow> n)"
  "q_header srcless_header_query = Some ''<img alt=logo>''"
  "q_footer srcless_header_query = Some ''<img src=http://cdn/logo.png>''"
  "q_header two_images_query =
     Some ''<p><img src=http://cdn/logo.png><img src=http://cdn/b.png></p>''"
  "q_footer two_images_query = Some ''<img alt=logo>''"
  by (simp_all add: srcless_header_query_def two_images_query_def)

lemma site_nonempty: "''http://site/'' \<noteq> []"
  by simp

lemma fragments_nonempty:
  "''<img alt=logo>'' \<noteq> []"
  "''<img src=http://cdn/logo.png>'' \<noteq> []"
  "''<p><img src=http://cdn/logo.png><img src=http://cdn/b.png></p>'' \<noteq> []"
  by simp_all

text \<open>
  C10. A request by URL that reaches the blocks (the navigation succeeded and the preset
  resolved to \<open>base\<close>), with a fragment that has an image element but whose first image
  has no \<open>src\<close>.

  As the header: the header block makes no fetch and writes no attribute; the request
  goes on with the footer block and the PDF call from the state \<open>sh\<close>, whose trace is
  the lease, the navigation and the resolution only and whose option object carries the
  serialised fragment as header template. Whenever the footer block returns, \<open>page.pdf\<close>
  is called with that header template and the reply is the PDF, or the error of
  \<open>page.pdf\<close>.

  As the footer, once the header block has returned in a state \<open>sh'\<close>: the footer block
  adds no event, the serialised fragment is the footer template of the options with
  which \<open>page.pdf\<close> is called next, and the reply is the PDF, or the error of
  \<open>page.pdf\<close>.
\<close>

theorem request_first_image_without_src:
  assumes "q_url query = Some url" and "url \<noteq> []" and "page_goto env url = None"
    and "name = (case q_pdf_option query of None \<Rightarrow> defaultPresetPdfOptionsName cfg | Some n \<Rightarrow> n)"
    and "lookup_preset cfg (preset s) name = Some r" and "heap s r = Some base"
    and "fragment \<noteq> []"
    and "select_all ''img'' (cheerio_load env fragment) = e # es"
    and "attr (e # es) ''src'' = None"
    and "template = cheerio_html env (cheerio_load env fragment)"
    and "sh = (at_blocks s url name base)\<lparr>heap := (heap s)(next_ref s \<mapsto>
           base\<lparr>displayHeaderFooter := Some True, headerTemplate := Some template\<rparr>)\<rparr>"
  shows "(q_header query = Some fragment \<longrightarrow>
            getHandler env cfg query s =
              finish url
                (await (footerBlock env (next_ref s) (q_footer query))
                   (\<lambda>_. pdf env (Url url) (next_ref s)) sh)
          \<and> (\<forall>sf. footerBlock env (next_ref s) (q_footer query) sh = (Inr (), sf) \<longrightarrow>
                (\<exists>opts. heap sf (next_ref s) = Some opts
                   \<and> headerTemplate opts = Some template
                   \<and> getHandler env cfg query s =
                       (getReply url (page_pdf env (Url url) opts),
                        sf\<lparr>trace := trace sf @ [Pdf (Url url) opts, Release]\<rparr>))))
       \<and> (q_footer query = Some fragment \<longrightarrow>
            (\<forall>sh'. headerBlock env (next_ref s) (q_header query) (at_blocks s url name base) =
                     (Inr (), sh') \<longrightarrow>
                (\<exists>opts0. heap sh' (next_ref s) = Some opts0
                   \<and> getHandler env cfg query s =
                       (getReply url (page_pdf env (Url url)
                          (opts0\<lparr>displayHeaderFooter := Some True,
                             footerTemplate := Some template\<rparr>)),
                        sh'\<lparr>heap := (heap sh')(next_ref s \<mapsto>
                               opts0\<lparr>displayHeaderFooter := Some True,
                                 footerTemplate := Some template\<rparr>),
                            trace := trace sh' @
                              [Pdf (Url url)
                                 (opts0\<lparr>displayHeaderFooter := Some True,
                                    footerTemplate := Some template\<rparr>),
                               Release]\<rparr>))))"
proof (intro conjI impI allI)
  note link = getHandler_blocks [OF assms(1-6)]
  note blocks = blocks_without_src [OF assms(7) _ assms(8,9)]
  {
    assume hdr: "q_header query = Some fragment"
    have hb: "headerBlock env (next_ref s) (Some fragment) (at_blocks s url name base) = (Inr (), sh)"
      unfolding assms(10,11)
      by (simp add: blocks(1) [OF at_blocks_fields(1)]) (simp add: at_blocks_def)
    show eq: "getHandler env cfg query s =
              finish url
                (await (footerBlock env (next_ref s) (q_footer query))
                   (\<lambda>_. pdf env (Url url) (next_ref s)) sh)"
      by (simp add: link hdr await_def [of "headerBlock env (next_ref s) (Some fragment)"] hb)
    fix sf assume fb: "footerBlock env (next_ref s) (q_footer query) sh = (Inr (), sf)"
    have "heap sh (next_ref s) =
        Some (base\<lparr>displayHeaderFooter := Some True, headerTemplate := Some template\<rparr>)"
      by (simp add: assms(11))
    from footerBlock_keeps_header [OF fb this] obtain opts where
      opts: "heap sf (next_ref s) = Some opts" "headerTemplate opts = Some template"
      by auto
    have "getHandler env cfg query s =
        (getReply url (page_pdf env (Url url) opts),
         sf\<lparr>trace := trace sf @ [Pdf (Url url) opts, Release]\<rparr>)"
      unfolding eq
      by (simp add: await_def [of "footerBlock env (next_ref s) (q_footer query)"] fb
            finish_pdf [OF opts(1)])
    with opts show "\<exists>opts. heap sf (next_ref s) = Some opts
                   \<and> headerTemplate opts = Some template
                   \<and> getHandler env cfg query s =
                       (getReply url (page_pdf env (Url url) opts),
                        sf\<lparr>trace := trace sf @ [Pdf (Url url) opts, Release]\<rparr>)"
      by blast
  }
  {
    fix sh'
    assume ftr: "q_footer query = Some fragment"
      and hb: "headerBlock env (next_ref s) (q_header query) (at_blocks s url name base) =
                     (Inr (), sh')"
    from headerBlock_keeps_object [OF hb at_blocks_fields(1)] obtain opts0 where
      o: "heap sh' (next_ref s) = Some opts0" by blast
    let ?opts = "opts0\<lparr>displayHeaderFooter := Some True, footerTemplate := Some template\<rparr>"
    let ?sf = "sh'\<lparr>heap := (heap sh')(next_ref s \<mapsto> ?opts)\<rparr>"
    have fb: "footerBlock env (next_ref s) (Some fragment) sh' = (Inr (), ?sf)"
      unfolding assms(10) by (rule blocks(2) [OF o])
    have "getHandler env cfg query s = finish url (pdf env (Url url) (next_ref s) ?sf)"
      by (simp add: link ftr await_def hb fb)
    also have "\<dots> = (getReply url (page_pdf env (Url url) ?opts),
        ?sf\<lparr>trace := trace ?sf @ [Pdf (Url url) ?opts, Release]\<rparr>)"
      by (rule finish_pdf) simp
    finally have "getHandler env cfg query s =
        (getReply url (page_pdf env (Url url) ?opts),
         sh'\<lparr>heap := (heap sh')(next_ref s \<mapsto> ?opts),
             trace := trace sh' @ [Pdf (Url url) ?opts, Release]\<rparr>)"
      by simp
    with o show "\<exists>opts0. heap sh' (next_ref s) = Some opts0
                   \<and> getHandler env cfg query s =
                       (getReply url (page_pdf env (Url url)
                          (opts0\<lparr>displayHeaderFooter := Some True,
                             footerTemplate := Some template\<rparr>)),
                        sh'\<lparr>heap := (heap sh')(next_ref s \<mapsto>
                               opts0\<lparr>displayHeaderFooter := Some True,
                                 footerTemplate := Some template\<rparr>),
                            trace := trace sh' @
                              [Pdf (Url url)
                                 (opts0\<lparr>displayHeaderFooter := Some True,
                                    footerTemplate := Some template\<rparr>),
                               Release]\<rparr>)"
      by blast
  }
qed

theorem request_first_image_without_src_witness:
  "q_header srcless_header_query = Some ''<img alt=logo>''
   \<and> attr (select_all ''img'' (cheerio_load example_env ''<img alt=logo>'')) ''src'' = None
   \<and> getHandler example_env example_config srcless_header_query example_state =
       finish ''http://site/''
         (await (footerBlock example_env (next_ref example_state)
                   (q_footer srcless_header_query))
            (\<lambda>_. pdf example_env (Url ''http://site/'') (next_ref example_state))
            (example_at_blocks\<lparr>heap := (heap example_state)(next_ref example_state \<mapsto>
               example_A4\<lparr>displayHeaderFooter := Some True,
                 headerTemplate := Some (cheerio_html example_env
                   (cheerio_load example_env ''<img alt=logo>''))\<rparr>)\<rparr>))
   \<and> q_footer two_images_query = Some ''<img alt=logo>''
   \<and> (\<exists>opts0.
         heap (snd (headerBlock example_env (next_ref example_state)
                 (q_header two_images_query) example_at_blocks))
           (next_ref example_state) = Some opts0
       \<and> getHandler example_env example_config two_images_query example_state =
           (getReply ''http://site/'' (page_pdf example_env (Url ''http://site/'')
              (opts0\<lparr>displayHeaderFooter := Some True,
                 footerTemplate := Some (cheerio_html example_env
                   (cheerio_load example_env ''<img alt=logo>''))\<rparr>)),
            (snd (headerBlock example_env (next_ref example_state)
                 (q_header two_images_query) example_at_blocks))
            \<lparr>heap := (heap (snd (headerBlock example_env (next_ref example_state)
                 (q_header two_images_query) example_at_blocks)))(next_ref example_state \<mapsto>
                 opts0\<lparr>displayHeaderFooter := Some True,
                   footerTemplate := Some (cheerio_html example_env
                     (cheerio_load example_env ''<img alt=logo>''))\<rparr>),
              trace := trace (snd (headerBlock example_env (next_ref example_state)
                 (q_header two_images_query) example_at_blocks)) @
                [Pdf (Url ''http://site/'')
                   (opts0\<lparr>displayHeaderFooter := Some True,
                      footerTemplate := Some (cheerio_html example_env
                        (cheerio_load example_env ''<img alt=logo>''))\<rparr>),
                 Release]\<rparr>))"
proof -
  have sel: "select_all ''img'' (cheerio_load example_env ''<img alt=logo>'') =
      [Element ''img'' [(''alt'', ''logo'')] []]"
    by (rule example_selects)
  have at: "attr [Element ''img'' [(''alt'', ''logo'')] []] ''src'' = None"
    by (rule example_attrs)
  have at': "attr (select_all ''img'' (cheerio_load example_env ''<img alt=logo>'')) ''src'' = None"
    unfolding sel by (rule at)
  note inst1 = request_first_image_without_src
    [OF example_queries(1) site_nonempty example_env_facts(5) example_queries(3)
        example_lookup_A4 example_heap_A4 fragments_nonempty(1) sel at refl refl]
  note inst2 = request_first_image_without_src
    [OF example_queries(2) site_nonempty example_env_facts(5) example_queries(4)
        example_lookup_A4 example_heap_A4 fragments_nonempty(1) sel at refl refl]
  note c1 = inst1 [THEN conjunct1, THEN mp, OF example_queries(5), THEN conjunct1,
    folded example_at_blocks_def]
  have hb_ok: "fst (headerBlock example_env (next_ref example_state)
      (q_header two_images_query) example_at_blocks) = Inr ()"
    unfolding example_queries(7) example_at_blocks_def
    by (simp add: blocks_fetch(1) [OF fragments_nonempty(3) at_blocks_fields(1)
          example_selects(3) example_attrs(3)] example_env_facts)
  have hb: "headerBlock example_env (next_ref example_state)
      (q_header two_images_query) (at_blocks example_state ''http://site/'' ''A4'' example_A4) =
      (Inr (), snd (headerBlock example_env (next_ref example_state)
      (q_header two_images_query) example_at_blocks))"
    using hb_ok by (simp add: prod_eq_iff example_at_blocks_def)
  note c2 = inst2 [THEN conjunct2, THEN mp, OF example_queries(8), rule_format, OF hb]
  show ?thesis
    by (intro conjI) (rule example_queries(5) at' c1 example_queries(8) c2)+
qed

text \<open>
  C9. A request by URL that reaches the blocks, with a fragment of \<open>n \<ge> 1\<close> image
  elements whose first has the source \<open>u\<close>. The document \<open>doc\<close>, in which the data URI
  of the bytes \<open>B\<close> is written, has the same \<open>n\<close> images and every one of them has that
  URI as its source.

  As the header: the one event of the header block is the fetch of \<open>u\<close>. When the fetch
  fails the request ends there, with the error; when it answers \<open>B\<close>, the request goes
  on with the footer block and the PDF call from the state \<open>sh\<close>, in which the
  serialisation of \<open>doc\<close> is the header template, and \<open>page.pdf\<close> is called with it
  whenever the footer block returns.

  As the footer, once the header block has returned in a state \<open>sh'\<close>: the one event of
  the footer block is the fetch of \<open>u\<close>; when it fails the request ends with the error,
  and when it answers \<open>B\<close> the PDF call follows with the serialisation of \<open>doc\<close> as
  footer template.
\<close>

theorem request_one_fetch_for_all_images:
  assumes "q_url query = Some url" and "url \<noteq> []" and "page_goto env url = None"
    and "name = (case q_pdf_option query of None \<Rightarrow> defaultPresetPdfOptionsName cfg | Some n \<Rightarrow> n)"
    and "lookup_preset cfg (preset s) name = Some r" and "heap s r = Some base"
    and "fragment \<noteq> []"
    and "select_all ''img'' (cheerio_load env fragment) = e # es"
    and "attr (e # es) ''src'' = Some u"
    and "uri = ''data:image/png;base64,'' @ toBase64 B"
    and "doc = set_attr_all ''img'' ''src'' uri (cheerio_load env fragment)"
    and "sh = (at_blocks s url name base)\<lparr>heap := (heap s)(next_ref s \<mapsto>
           base\<lparr>displayHeaderFooter := Some True,
             headerTemplate := Some (cheerio_html env doc)\<rparr>),
           trace := trace s @ [Lease, Goto url, GetPDFOptions name, AxiosGet u]\<rparr>"
  shows "length (select_all ''img'' doc) = length (e # es)
       \<and> (\<forall>x \<in> set (select_all ''img'' doc). attr [x] ''src'' = Some uri)
       \<and> (q_header query = Some fragment \<longrightarrow>
            (\<forall>err. axios_get env u = Inl err \<longrightarrow>
               getHandler env cfg query s =
                 (getReply url (Inl err),
                  (at_blocks s url name base)\<lparr>heap := (heap s)(next_ref s \<mapsto>
                      base\<lparr>displayHeaderFooter := Some True\<rparr>),
                    trace := trace s @
                      [Lease, Goto url, GetPDFOptions name, AxiosGet u, Release]\<rparr>))
          \<and> (axios_get env u = Inr B \<longrightarrow>
               getHandler env cfg query s =
                 finish url
                   (await (footerBlock env (next_ref s) (q_footer query))
                      (\<lambda>_. pdf env (Url url) (next_ref s)) sh)
             \<and> (\<forall>sf. footerBlock env (next_ref s) (q_footer query) sh = (Inr (), sf) \<longrightarrow>
                   (\<exists>opts. heap sf (next_ref s) = Some opts
                      \<and> headerTemplate opts = Some (cheerio_html env doc)
                      \<and> getHandler env cfg query s =
                          (getReply url (page_pdf env (Url url) opts),
                           sf\<lparr>trace := trace sf @ [Pdf (Url url) opts, Release]\<rparr>)))))
       \<and> (q_footer query = Some fragment \<longrightarrow>
            (\<forall>sh'. headerBlock env (next_ref s) (q_header query) (at_blocks s url name base) =
                     (Inr (), sh') \<longrightarrow>
                (\<exists>opts0. heap sh' (next_ref s) = Some opts0
                   \<and> (\<forall>err. axios_get env u = Inl err \<longrightarrow>
                        getHandler env cfg query s =
                          (getReply url (Inl err),
                           sh'\<lparr>heap := (heap sh')(next_ref s \<mapsto>
                                  opts0\<lparr>displayHeaderFooter := Some True\<rparr>),
                               trace := trace sh' @ [AxiosGet u, Release]\<rparr>))
                   \<and> (axios_get env u = Inr B \<longrightarrow>
                        getHandler env cfg query s =
                          (getReply url (page_pdf env (Url url)
                             (opts0\<lparr>displayHeaderFooter := Some True,
                                footerTemplate := Some (cheerio_html env doc)\<rparr>)),
                           sh'\<lparr>heap := (heap sh')(next_ref s \<mapsto>
                                  opts0\<lparr>displayHeaderFooter := Some True,
                                    footerTemplate := Some (cheerio_html env doc)\<rparr>),
                               trace := trace sh' @
                                 [AxiosGet u,
                                  Pdf (Url url)
                                    (opts0\<lparr>displayHeaderFooter := Some True,
                                       footerTemplate := Some (cheerio_html env doc)\<rparr>),
                                  Release]\<rparr>)))))"
proof -
  note link = getHandler_blocks [OF assms(1-6)]
  note blocks = blocks_fetch [OF assms(7) _ assms(8,9)]
  from written_to_all_images [OF assms(11)] assms(8)
  have written: "length (select_all ''img'' doc) = length (e # es)"
    "\<forall>x \<in> set (select_all ''img'' doc). attr [x] ''src'' = Some uri"
    by simp_all
  have header: "(\<forall>err. axios_get env u = Inl err \<longrightarrow>
               getHandler env cfg query s =
                 (getReply url (Inl err),
                  (at_blocks s url name base)\<lparr>heap := (heap s)(next_ref s \<mapsto>
                      base\<lparr>displayHeaderFooter := Some True\<rparr>),
                    trace := trace s @
                      [Lease, Goto url, GetPDFOptions name, AxiosGet u, Release]\<rparr>))
          \<and> (axios_get env u = Inr B \<longrightarrow>
               getHandler env cfg query s =
                 finish url
                   (await (footerBlock env (next_ref s) (q_footer query))
                      (\<lambda>_. pdf env (Url url) (next_ref s)) sh)
             \<and> (\<forall>sf. footerBlock env (next_ref s) (q_footer query) sh = (Inr (), sf) \<longrightarrow>
                   (\<exists>opts. heap sf (next_ref s) = Some opts
                      \<and> headerTemplate opts = Some (cheerio_html env doc)
                      \<and> getHandler env cfg query s =
                          (getReply url (page_pdf env (Url url) opts),
                           sf\<lparr>trace := trace sf @ [Pdf (Url url) opts, Release]\<rparr>))))"
    if hdr: "q_header query = Some fragment"
  proof (intro conjI impI allI)
    note hb = blocks(1) [OF at_blocks_fields(1) [of s url name base]]
    {
      fix err assume err: "axios_get env u = Inl err"
      show "getHandler env cfg query s =
                 (getReply url (Inl err),
                  (at_blocks s url name base)\<lparr>heap := (heap s)(next_ref s \<mapsto>
                      base\<lparr>displayHeaderFooter := Some True\<rparr>),
                    trace := trace s @
                      [Lease, Goto url, GetPDFOptions name, AxiosGet u, Release]\<rparr>)"
        by (simp add: link hdr await_def [of "headerBlock env (next_ref s) (Some fragment)"]
              hb err finish_def emit_def)
           (simp add: at_blocks_def)
    }
    assume ok: "axios_get env u = Inr B"
    have hb': "headerBlock env (next_ref s) (Some fragment) (at_blocks s url name base) =
        (Inr (), sh)"
      by (simp add: hb ok assms(10,11,12)) (simp add: at_blocks_def)
    show eq: "getHandler env cfg query s =
                 finish url
                   (await (footerBlock env (next_ref s) (q_footer query))
                      (\<lambda>_. pdf env (Url url) (next_ref s)) sh)"
      by (simp add: link hdr await_def [of "headerBlock env (next_ref s) (Some fragment)"] hb')
    fix sf assume fb: "footerBlock env (next_ref s) (q_footer query) sh = (Inr (), sf)"
    have "heap sh (next_ref s) =
        Some (base\<lparr>displayHeaderFooter := Some True,
                headerTemplate := Some (cheerio_html env doc)\<rparr>)"
      by (simp add: assms(12))
    from footerBlock_keeps_header [OF fb this] obtain opts where
      opts: "heap sf (next_ref s) = Some opts" "headerTemplate opts = Some (cheerio_html env doc)"
      by auto
    have "getHandler env cfg query s =
        (getReply url (page_pdf env (Url url) opts),
         sf\<lparr>trace := trace sf @ [Pdf (Url url) opts, Release]\<rparr>)"
      unfolding eq
      by (simp add: await_def [of "footerBlock env (next_ref s) (q_footer query)"] fb
            finish_pdf [OF opts(1)])
    with opts show "\<exists>opts. heap sf (next_ref s) = Some opts
                      \<and> headerTemplate opts = Some (cheerio_html env doc)
                      \<and> getHandler env cfg query s =
                          (getReply url (page_pdf env (Url url) opts),
                           sf\<lparr>trace := trace sf @ [Pdf (Url url) opts, Release]\<rparr>)"
      by blast
  qed
  have footer: "\<exists>opts0. heap sh' (next_ref s) = Some opts0
                   \<and> (\<forall>err. axios_get env u = Inl err \<longrightarrow>
                        getHandler env cfg query s =
                          (getReply url (Inl err),
                           sh'\<lparr>heap := (heap sh')(next_ref s \<mapsto>
                                  opts0\<lparr>displayHeaderFooter := Some True\<rparr>),
                               trace := trace sh' @ [AxiosGet u, Release]\<rparr>))
                   \<and> (axios_get env u = Inr B \<longrightarrow>
                        getHandler env cfg query s =
                          (getReply url (page_pdf env (Url url)
                             (opts0\<lparr>displayHeaderFooter := Some True,
                                footerTemplate := Some (cheerio_html env doc)\<rparr>)),
                           sh'\<lparr>heap := (heap sh')(next_ref s \<mapsto>
                                  opts0\<lparr>displayHeaderFooter := Some True,
                                    footerTemplate := Some (cheerio_html env doc)\<rparr>),
                               trace := trace sh' @
                                 [AxiosGet u,
                                  Pdf (Url url)
                                    (opts0\<lparr>displayHeaderFooter := Some True,
                                       footerTemplate := Some (cheerio_html env doc)\<rparr>),
                                  Release]\<rparr>))"
    if ftr: "q_footer query = Some fragment"
      and hb: "headerBlock env (next_ref s) (q_header query) (at_blocks s url name base) =
                     (Inr (), sh')"
    for sh'
  proof -
    from headerBlock_keeps_object [OF hb at_blocks_fields(1)] obtain opts0 where
      o: "heap sh' (next_ref s) = Some opts0" by blast
    note fb = blocks(2) [OF o]
    have fail: "getHandler env cfg query s =
                          (getReply url (Inl err),
                           sh'\<lparr>heap := (heap sh')(next_ref s \<mapsto>
                                  opts0\<lparr>displayHeaderFooter := Some True\<rparr>),
                               trace := trace sh' @ [AxiosGet u, Release]\<rparr>)"
      if "axios_get env u = Inl err" for err
      by (simp add: link ftr await_def hb fb that finish_def emit_def)
    have ok: "getHandler env cfg query s =
                          (getReply url (page_pdf env (Url url)
                             (opts0\<lparr>displayHeaderFooter := Some True,
                                footerTemplate := Some (cheerio_html env doc)\<rparr>)),
                           sh'\<lparr>heap := (heap sh')(next_ref s \<mapsto>
                                  opts0\<lparr>displayHeaderFooter := Some True,
                                    footerTemplate := Some (cheerio_html env doc)\<rparr>),
                               trace := trace sh' @
                                 [AxiosGet u,
                                  Pdf (Url url)
                                    (opts0\<lparr>displayHeaderFooter := Some True,
                                       footerTemplate := Some (cheerio_html env doc)\<rparr>),
                                  Release]\<rparr>)"
      if "axios_get env u = Inr B"
      by (simp add: link ftr await_def hb fb that finish_def emit_def pdf_def assms(10,11))
    from o fail ok show ?thesis by blast
  qed
  from written header footer show ?thesis by blast
qed

theorem request_one_fetch_for_all_images_witness:
  "q_header two_images_query =
     Some ''<p><img src=http://cdn/logo.png><img src=http://cdn/b.png></p>''
   \<and> attr (select_all ''img'' (cheerio_load example_env
         ''<p><img src=http://cdn/logo.png><img src=http://cdn/b.png></p>'')) ''src'' =
       Some ''http://cdn/logo.png''
   \<and> axios_get example_env ''http://cdn/logo.png'' = Inr [137, 80, 78, 71]
   \<and> map (\<lambda>x. attr [x] ''src'')
         (select_all ''img''
            (set_attr_all ''img'' ''src'' (''data:image/png;base64,'' @ toBase64 [137, 80, 78, 71])
               (cheerio_load example_env
                  ''<p><img src=http://cdn/logo.png><img src=http://cdn/b.png></p>''))) =
       [Some (''data:image/png;base64,'' @ toBase64 [137, 80, 78, 71]),
        Some (''data:image/png;base64,'' @ toBase64 [137, 80, 78, 71])]
   \<and> getHandler example_env example_config two_images_query example_state =
       finish ''http://site/''
         (await (footerBlock example_env (next_ref example_state) (q_footer two_images_query))
            (\<lambda>_. pdf example_env (Url ''http://site/'') (next_ref example_state))
            (example_at_blocks\<lparr>heap := (heap example_state)(next_ref example_state \<mapsto>
               example_A4\<lparr>displayHeaderFooter := Some True,
                 headerTemplate := Some (cheerio_html example_env
                   (set_attr_all ''img'' ''src''
                      (''data:image/png;base64,'' @ toBase64 [137, 80, 78, 71])
                      (cheerio_load example_env
                         ''<p><img src=http://cdn/logo.png><img src=http://cdn/b.png></p>'')))\<rparr>),
               trace := trace example_state @
                 [Lease, Goto ''http://site/'', GetPDFOptions ''A4'',
                  AxiosGet ''http://cdn/logo.png'']\<rparr>))
   \<and> q_footer srcless_header_query = Some ''<img src=http://cdn/logo.png>''
   \<and> (\<exists>opts0.
         heap (snd (headerBlock example_env (next_ref example_state)
                 (q_header srcless_header_query) example_at_blocks))
           (next_ref example_state) = Some opts0
       \<and> getHandler example_env example_config srcless_header_query example_state =
           (getReply ''http://site/'' (page_pdf example_env (Url ''http://site/'')
              (opts0\<lparr>displayHeaderFooter := Some True,
                 footerTemplate := Some (cheerio_html example_env
                   (set_attr_all ''img'' ''src''
                      (''data:image/png;base64,'' @ toBase64 [137, 80, 78, 71])
                      (cheerio_load example_env ''<img src=http://cdn/logo.png>'')))\<rparr>)),
            (snd (headerBlock example_env (next_ref example_state)
                 (q_header srcless_header_query) example_at_blocks))
            \<lparr>heap := (heap (snd (headerBlock example_env (next_ref example_state)
                 (q_header srcless_header_query) example_at_blocks)))(next_ref example_state \<mapsto>
                 opts0\<lparr>displayHeaderFooter := Some True,
                   footerTemplate := Some (cheerio_html example_env
                     (set_attr_all ''img'' ''src''
                        (''data:image/png;base64,'' @ toBase64 [137, 80, 78, 71])
                        (cheerio_load example_env ''<img src=http://cdn/logo.png>'')))\<rparr>),
              trace := trace (snd (headerBlock example_env (next_ref example_state)
                 (q_header srcless_header_query) example_at_blocks)) @
                [AxiosGet ''http://cdn/logo.png'',
                 Pdf (Url ''http://site/'')
                   (opts0\<lparr>displayHeaderFooter := Some True,
                      footerTemplate := Some (cheerio_html example_env
                        (set_attr_all ''img'' ''src''
                           (''data:image/png;base64,'' @ toBase64 [137, 80, 78, 71])
                           (cheerio_load example_env ''<img src=http://cdn/logo.png>'')))\<rparr>),
                 Release]\<rparr>))"
proof -
  let ?two = "''<p><img src=http://cdn/logo.png><img src=http://cdn/b.png></p>''"
  let ?uri = "''data:image/png;base64,'' @ toBase64 [137, 80, 78, 71]"
  have at2: "attr (select_all ''img'' (cheerio_load example_env ?two)) ''src'' =
      Some ''http://cdn/logo.png''"
    unfolding example_selects(3) by (rule example_attrs)
  note ok = example_env_facts(3)
  note inst1 = request_one_fetch_for_all_images
    [OF example_queries(2) site_nonempty example_env_facts(5) example_queries(4)
        example_lookup_A4 example_heap_A4 fragments_nonempty(3) example_selects(3)
        example_attrs(3) refl refl refl, of "[137, 80, 78, 71]"]
  note inst2 = request_one_fetch_for_all_images
    [OF example_queries(1) site_nonempty example_env_facts(5) example_queries(3)
        example_lookup_A4 example_heap_A4 fragments_nonempty(2) example_selects(2)
        example_attrs(2) refl refl refl, of "[137, 80, 78, 71]"]
  from inst1 [THEN conjunct1] obtain a b where ab:
    "select_all ''img'' (set_attr_all ''img'' ''src'' ?uri (cheerio_load example_env ?two)) = [a, b]"
    by (auto simp: length_Suc_conv)
  from inst1 [THEN conjunct2, THEN conjunct1] ab have written:
    "map (\<lambda>x. attr [x] ''src'')
       (select_all ''img'' (set_attr_all ''img'' ''src'' ?uri (cheerio_load example_env ?two))) =
     [Some ?uri, Some ?uri]"
    by simp
  note c1 = inst1 [THEN conjunct2, THEN conjunct2, THEN conjunct1, THEN mp,
    OF example_queries(7), THEN conjunct2, THEN mp, OF ok, THEN conjunct1,
    folded example_at_blocks_def]
  have hb_ok: "fst (headerBlock example_env (next_ref example_state)
      (q_header srcless_header_query) example_at_blocks) = Inr ()"
    unfolding example_queries(5) example_at_blocks_def
    by (simp add: blocks_without_src(1) [OF fragments_nonempty(1) at_blocks_fields(1)
          example_selects(1) example_attrs(1)])
  have hb: "headerBlock example_env (next_ref example_state)
      (q_header srcless_header_query)
      (at_blocks example_state ''http://site/'' ''A4'' example_A4) =
      (Inr (), snd (headerBlock example_env (next_ref example_state)
      (q_header srcless_header_query) example_at_blocks))"
    using hb_ok by (simp add: prod_eq_iff example_at_blocks_def)
  from inst2 [THEN conjunct2, THEN conjunct2, THEN conjunct2, THEN mp,
    OF example_queries(6), rule_format, OF hb]
  obtain opts0 where o: "heap (snd (headerBlock example_env (next_ref example_state)
                 (q_header srcless_header_query) example_at_blocks))
           (next_ref example_state) = Some opts0"
    and rest: "axios_get example_env ''http://cdn/logo.png'' = Inr [137, 80, 78, 71] \<longrightarrow>
        getHandler example_env example_config srcless_header_query example_state =
           (getReply ''http://site/'' (page_pdf example_env (Url ''http://site/'')
              (opts0\<lparr>displayHeaderFooter := Some True,
                 footerTemplate := Some (cheerio_html example_env
                   (set_attr_all ''img'' ''src'' ?uri
                      (cheerio_load example_env ''<img src=http://cdn/logo.png>'')))\<rparr>)),
            (snd (headerBlock example_env (next_ref example_state)
                 (q_header srcless_header_query) example_at_blocks))
            \<lparr>heap := (heap (snd (headerBlock example_env (next_ref example_state)
                 (q_header srcless_header_query) example_at_blocks)))(next_ref example_state \<mapsto>
                 opts0\<lparr>displayHeaderFooter := Some True,
                   footerTemplate := Some (cheerio_html example_env
                     (set_attr_all ''img'' ''src'' ?uri
                        (cheerio_load example_env ''<img src=http://cdn/logo.png>'')))\<rparr>),
              trace := trace (snd (headerBlock example_env (next_ref example_state)
                 (q_header srcless_header_query) example_at_blocks)) @
                [AxiosGet ''http://cdn/logo.png'',
                 Pdf (Url ''http://site/'')
                   (opts0\<lparr>displayHeaderFooter := Some True,
                      footerTemplate := Some (cheerio_html example_env
                        (set_attr_all ''img'' ''src'' ?uri
                           (cheerio_load example_env ''<img src=http://cdn/logo.png>'')))\<rparr>),
                 Release]\<rparr>)"
    by blast
  note c2 = conjI [OF o rest [THEN mp, OF ok]]
  show ?thesis
    by (intro conjI)
       (rule example_queries(7) at2 ok written c1 example_queries(6)
         | (rule exI [of _ opts0], rule c2))+
qed

section \<open>The GET handler and the registry\<close>

lemma getHandler_run:
  assumes "q_url query = Some url" and "url \<noteq> []"
    and "getHandler env cfg query s = (rep, s')"
  obtains res where
    "runOnPage (getJob env cfg url
        (case q_pdf_option query of None \<Rightarrow> defaultPresetPdfOptionsName cfg | Some name \<Rightarrow> name)
        (q_header query) (q_footer query)) s = (res, s')"
    and "rep = (case res of
                  Inr buffer \<Rightarrow> pdfReply buffer
                | Inl error \<Rightarrow>
                    \<lparr>statusCode = 500, headers = [],
                     payload = Json [(''error'', JError error), (''url'', JString url)]\<rparr>)"
  using assms
  by (auto simp: getHandler_def Let_def split: sum.splits prod.splits)

lemma getHandler_frame:
  assumes "getHandler env cfg query s = (rep, s')"
  shows "preset s' = preset s \<and> next_ref s \<le> next_ref s'
       \<and> (\<forall>a<next_ref s. heap s' a = heap s a)"
proof (cases "q_url query = None \<or> q_url query = Some []")
  case True
  with assms have "s' = s" by (auto simp: getHandler_def)
  then show ?thesis by simp
next
  case False
  then obtain url where url: "q_url query = Some url" "url \<noteq> []" by auto
  from url assms obtain res where "runOnPage (getJob env cfg url
      (case q_pdf_option query of None \<Rightarrow> defaultPresetPdfOptionsName cfg | Some name \<Rightarrow> name)
      (q_header query) (q_footer query)) s = (res, s')"
    by (rule getHandler_run)
  then show ?thesis by (rule getJob_frame)
qed

lemma stored_frame:
  assumes "registry_wf s" and "preset s' = preset s" and "next_ref s \<le> next_ref s'"
    and "\<forall>a<next_ref s. heap s' a = heap s a"
  shows "(\<forall>name. stored s' name = stored s name) \<and> registry_wf s'"
proof -
  have lt: "r < next_ref s" if "map_of (preset s) name = Some r" for name r
  proof -
    from that have "(name, r) \<in> set (preset s)" by (rule map_of_SomeD)
    with assms(1) show ?thesis by (auto simp: registry_wf_def list_all_iff)
  qed
  have "stored s' name = stored s name" for name
    using assms(2,4) lt [of name] by (auto simp: stored_def split: option.splits)
  moreover have "registry_wf s'"
    using assms(1,2,3) by (fastforce simp: registry_wf_def list_all_iff)
  ultimately show ?thesis by simp
qed

lemma registry_wf_alloc:
  assumes "registry_wf s"
  shows "registry_wf (s\<lparr>heap := h, next_ref := Suc (next_ref s),
           preset := (name, next_ref s) # preset s\<rparr>)"
proof -
  have "r < Suc (next_ref s)" if "(n, r) \<in> set ((name, next_ref s) # preset s)" for n r
  proof (cases "(n, r) = (name, next_ref s)")
    case True
    then show ?thesis by simp
  next
    case False
    with that have "(n, r) \<in> set (preset s)" by auto
    with assms have "r < next_ref s" by (auto simp: registry_wf_def list_all_iff)
    then show ?thesis by simp
  qed
  then show ?thesis by (auto simp: registry_wf_def list_all_iff)
qed

lemma store_presets_wf: "registry_wf s \<Longrightarrow> registry_wf (store_presets table s)"
proof (induction table s rule: store_presets.induct)
  case (1 s)
  then show ?case by simp
next
  case (2 name opts rest s)
  from "2.prems" have "registry_wf (s\<lparr>heap := (heap s)(next_ref s \<mapsto> opts),
          next_ref := Suc (next_ref s), preset := (name, next_ref s) # preset s\<rparr>)"
    by (rule registry_wf_alloc)
  then show ?case by (simp add: "2.IH")
qed

lemma init_state_wf: "registry_wf (init_state table)"
  unfolding init_state_def by (rule store_presets_wf) (simp add: registry_wf_def)

text \<open>
  The blocks write the option object they are given, in place: after a header block the
  object at the reference differs from the one before. The registry therefore stays
  as loaded only because \<open>getPDFOptions\<close> hands out a copy.
\<close>

lemma headerBlock_writes_in_place:
  assumes "h \<noteq> []" and "heap s r = Some opts" and "displayHeaderFooter opts \<noteq> Some True"
  shows "heap (snd (headerBlock env r (Some h) s)) r \<noteq> heap s r"
proof -
  let ?s1 = "s\<lparr>heap := (heap s)(r \<mapsto> opts\<lparr>displayHeaderFooter := Some True\<rparr>)\<rparr>"
  obtain res s2 where inl: "inlineImages env h ?s1 = (res, s2)"
    by (cases "inlineImages env h ?s1")
  from inlineImages_summary [OF inl] obtain evs where s2: "s2 = ?s1\<lparr>trace := trace ?s1 @ evs\<rparr>"
    by blast
  have "\<exists>opts'. heap (snd (headerBlock env r (Some h) s)) r = Some opts'
          \<and> displayHeaderFooter opts' = Some True"
    using assms(1,2) inl s2
    by (cases res) (simp_all add: headerBlock_def await_def assign_def)
  with assms(2,3) show ?thesis by auto
qed

text \<open>
  C1. For every request on \<open>/\<close>, by URL or by HTML, on a well-formed registry: after
  the request every preset name is stored with the record it had before, and the
  registry is well formed again, so that the same holds for the next request. The
  handlers write only the copy that \<open>getPDFOptions\<close> returned.
\<close>

theorem registry_unchanged:
  assumes "registry_wf s" and "handle env cfg req s = (rep, s')"
  shows "(\<forall>name. stored s' name = stored s name) \<and> registry_wf s'"
proof -
  have frame: "preset s' = preset s \<and> next_ref s \<le> next_ref s'
       \<and> (\<forall>a<next_ref s. heap s' a = heap s a)"
  proof (cases req)
    case (GET query)
    with assms(2) have "getHandler env cfg query s = (rep, s')" by simp
    then show ?thesis by (rule getHandler_frame)
  next
    case (POST body)
    with assms(2) have "postHandler env cfg body s = (rep, s')" by simp
    then show ?thesis by (rule postHandler_frame)
  qed
  from frame have "preset s' = preset s" and "next_ref s \<le> next_ref s'"
    and "\<forall>a<next_ref s. heap s' a = heap s a"
    by blast+
  with assms(1) show ?thesis by (rule stored_frame)
qed

theorem registry_unchanged_witness:
  "registry_wf example_state
   \<and> stored (snd (handle example_env example_config (GET example_query) example_state)) ''A4'' =
       Some example_A4
   \<and> registry_wf (snd (handle example_env example_config (GET example_query) example_state))"
proof -
  have wf: "registry_wf example_state"
    unfolding example_state_def by (rule init_state_wf)
  have run: "handle example_env example_config (GET example_query) example_state =
      (fst (handle example_env example_config (GET example_query) example_state),
       snd (handle example_env example_config (GET example_query) example_state))"
    by simp
  note inst = registry_unchanged [OF wf run]
  have "stored example_state ''A4'' = Some example_A4"
    by (simp add: stored_def example_preset example_heap_A4_Suc)
  with inst [THEN conjunct1, rule_format, of "''A4''"]
  have a4: "stored (snd (handle example_env example_config (GET example_query) example_state))
      ''A4'' = Some example_A4"
    by simp
  show ?thesis
    by (intro conjI) (rule wf a4 inst [THEN conjunct2])+
qed

text \<open>
  C6. A GET without \<open>url\<close> or with an empty one, a POST without body, and a POST whose
  \<open>html\<close> is absent or empty are answered 400 with the state as it was: no event
  happened, in particular no page was leased and no option was resolved.
\<close>

theorem validation_before_lease:
  assumes "(\<exists>query. req = GET query \<and> (q_url query = None \<or> q_url query = Some []))
         \<or> req = POST None
         \<or> (\<exists>body. req = POST (Some body) \<and> (b_html body = None \<or> b_html body = Some []))"
  shows "statusCode (fst (handle env cfg req s)) = 400 \<and> snd (handle env cfg req s) = s"
  using assms
  by (auto simp: getHandler_def postHandler_def badRequest_def)

theorem validation_before_lease_witness:
  "statusCode (fst (handle example_env example_config
      (GET \<lparr>q_url = None, q_pdf_option = None, q_header = None, q_footer = None\<rparr>)
      example_state)) = 400
   \<and> snd (handle example_env example_config
      (GET \<lparr>q_url = None, q_pdf_option = None, q_header = None, q_footer = None\<rparr>)
      example_state) = example_state
   \<and> statusCode (fst (handle example_env example_config
      (POST (Some \<lparr>b_html = Some [], b_pdf_option = None, b_header = None, b_footer = None\<rparr>))
      example_state)) = 400
   \<and> snd (handle example_env example_config
      (POST (Some \<lparr>b_html = Some [], b_pdf_option = None, b_header = None, b_footer = None\<rparr>))
      example_state) = example_state"
proof -
  let ?g = "GET \<lparr>q_url = None, q_pdf_option = None, q_header = None, q_footer = None\<rparr>"
  let ?p = "POST (Some \<lparr>b_html = Some [], b_pdf_option = None, b_header = None, b_footer = None\<rparr>)"
  have hg: "(\<exists>query. ?g = GET query \<and> (q_url query = None \<or> q_url query = Some []))
         \<or> ?g = POST None
         \<or> (\<exists>body. ?g = POST (Some body) \<and> (b_html body = None \<or> b_html body = Some []))"
    by simp
  have hp: "(\<exists>query. ?p = GET query \<and> (q_url query = None \<or> q_url query = Some []))
         \<or> ?p = POST None
         \<or> (\<exists>body. ?p = POST (Some body) \<and> (b_html body = None \<or> b_html body = Some []))"
    by simp
  note g = validation_before_lease [OF hg, of example_env example_config example_state]
  note p = validation_before_lease [OF hp, of example_env example_config example_state]
  show ?thesis
    by (intro conjI) (rule g [THEN conjunct1] g [THEN conjunct2] p [THEN conjunct1] p [THEN conjunct2])+
qed

text \<open>
  C8. Whenever a request, GET or POST, called \<open>page.pdf\<close> and the page returned the
  bytes \<open>buffer\<close>, the reply has status 200, the bytes as its payload, and the five
  headers: the PDF content type, the length of \<open>buffer\<close>, the no-cache directive, the
  no-cache pragma and the expiry 0.
\<close>

theorem pdf_reply_headers:
  assumes "handle env cfg req s = (rep, s')"
    and "Pdf c opts \<in> set (new_events s s')" and "page_pdf env c opts = Inr buffer"
  shows "statusCode rep = 200
       \<and> payload rep = Binary buffer
       \<and> headers rep =
           [(''Content-Type'', HString ''application/pdf''),
            (''Content-Length'', HNumber (length buffer)),
            (''Cache-Control'', HString ''no-cache, no-store, must-revalidate''),
            (''Pragma'', HString ''no-cache''),
            (''Expires'', HNumber 0)]"
proof -
  have "rep = pdfReply buffer"
  proof (cases req)
    case (GET query)
    show ?thesis
    proof (cases "q_url query = None \<or> q_url query = Some []")
      case True
      with assms(1) GET have "s' = s" by (auto simp: getHandler_def)
      with assms(2) show ?thesis by (simp add: new_events_def)
    next
      case False
      then obtain url where url: "q_url query = Some url" "url \<noteq> []" by auto
      from assms(1) GET have "getHandler env cfg query s = (rep, s')" by simp
      with url obtain res where run: "runOnPage (getJob env cfg url
          (case q_pdf_option query of None \<Rightarrow> defaultPresetPdfOptionsName cfg | Some name \<Rightarrow> name)
          (q_header query) (q_footer query)) s = (res, s')"
        and rep: "rep = (case res of
                  Inr buffer \<Rightarrow> pdfReply buffer
                | Inl error \<Rightarrow>
                    \<lparr>statusCode = 500, headers = [],
                     payload = Json [(''error'', JError error), (''url'', JString url)]\<rparr>)"
        by (rule getHandler_run)
      from getJob_result [OF run] assms(2,3) have "res = Inr buffer" by auto
      with rep show ?thesis by simp
    qed
  next
    case (POST body)
    with assms(1) have "postHandler env cfg body s = (rep, s')" by simp
    then show ?thesis using assms(2,3) by (rule postHandler_result)
  qed
  then show ?thesis by (simp add: pdfReply_def createPDFHttpHeader_def)
qed

theorem pdf_reply_headers_witness:
  "Pdf (Url ''http://site/'')
        (example_A4\<lparr>displayHeaderFooter := Some True,
           headerTemplate := Some (cheerio_html example_env
             (set_attr_all ''img'' ''src'' (''data:image/png;base64,'' @ toBase64 [137, 80, 78, 71])
                (cheerio_load example_env ''<img src=http://cdn/logo.png>'')))\<rparr>)
      \<in> set (new_events example_state
            (snd (handle example_env example_config (GET example_query) example_state)))
   \<and> statusCode (fst (handle example_env example_config (GET example_query) example_state)) = 200
   \<and> payload (fst (handle example_env example_config (GET example_query) example_state)) =
       Binary [37, 80, 68, 70]
   \<and> headers (fst (handle example_env example_config (GET example_query) example_state)) =
       [(''Content-Type'', HString ''application/pdf''),
        (''Content-Length'', HNumber (length [37, 80, 68, 70 :: byte])),
        (''Cache-Control'', HString ''no-cache, no-store, must-revalidate''),
        (''Pragma'', HString ''no-cache''),
        (''Expires'', HNumber 0)]"
proof -
  let ?opts = "example_A4\<lparr>displayHeaderFooter := Some True,
           headerTemplate := Some (cheerio_html example_env
             (set_attr_all ''img'' ''src'' (''data:image/png;base64,'' @ toBase64 [137, 80, 78, 71])
                (cheerio_load example_env ''<img src=http://cdn/logo.png>'')))\<rparr>"
  have run: "handle example_env example_config (GET example_query) example_state =
      (fst (handle example_env example_config (GET example_query) example_state),
       snd (handle example_env example_config (GET example_query) example_state))"
    by simp
  have ev: "Pdf (Url ''http://site/'') ?opts
      \<in> set (new_events example_state
            (snd (handle example_env example_config (GET example_query) example_state)))"
    by (simp add: example_get_events)
  have ok: "page_pdf example_env (Url ''http://site/'') ?opts = Inr [37, 80, 68, 70]"
    by (rule example_env_facts)
  note inst = pdf_reply_headers [OF run ev ok]
  show ?thesis
    by (intro conjI) (rule ev inst [THEN conjunct1] inst [THEN conjunct2, THEN conjunct1]
        inst [THEN conjunct2, THEN conjunct2])+
qed

text \<open>
  C5. A by-URL request with a non-empty \<open>url\<close> in which a step of the job fails with
  the error \<open>e\<close>: the navigation, the resolution of the preset, a fetch of an image
  that the request made, or the PDF call that the request made. The reply is then 500
  with the JSON body of that very error \<open>e\<close> and the \<open>url\<close> of the request; the
  payload is not binary.
\<close>

theorem failure_is_server_error:
  assumes "q_url query = Some url" and "url \<noteq> []"
    and "name = (case q_pdf_option query of None \<Rightarrow> defaultPresetPdfOptionsName cfg | Some n \<Rightarrow> n)"
    and "getHandler env cfg query s = (rep, s')"
    and "page_goto env url = Some e
       \<or> (page_goto env url = None \<and> lookup_preset cfg (preset s) name = None
            \<and> e = OptionsError name)
       \<or> (\<exists>u. AxiosGet u \<in> set (new_events s s') \<and> axios_get env u = Inl e)
       \<or> (\<exists>c opts. Pdf c opts \<in> set (new_events s s') \<and> page_pdf env c opts = Inl e)"
  shows "rep = \<lparr>statusCode = 500, headers = [],
                payload = Json [(''error'', JError e), (''url'', JString url)]\<rparr>"
proof -
  from assms(1,2,4) obtain res where run: "runOnPage (getJob env cfg url
          (case q_pdf_option query of None \<Rightarrow> defaultPresetPdfOptionsName cfg | Some name \<Rightarrow> name)
          (q_header query) (q_footer query)) s = (res, s')"
    and rep: "rep = (case res of
                  Inr buffer \<Rightarrow> pdfReply buffer
                | Inl error \<Rightarrow>
                    \<lparr>statusCode = 500, headers = [],
                     payload = Json [(''error'', JError error), (''url'', JString url)]\<rparr>)"
    by (rule getHandler_run)
  from assms(5) getJob_result [OF run] getJob_resolution [OF run] assms(3)
  have "res = Inl e" by auto
  with rep show ?thesis by simp
qed

theorem failure_is_server_error_witness:
  "AxiosGet ''http://cdn/b.png''
      \<in> set (new_events example_state
            (snd (getHandler example_env example_config failing_query example_state)))
   \<and> axios_get example_env ''http://cdn/b.png'' = Inl (AxiosError ''ECONNREFUSED'')
   \<and> fst (getHandler example_env example_config failing_query example_state) =
       \<lparr>statusCode = 500, headers = [],
        payload = Json [(''error'', JError (AxiosError ''ECONNREFUSED'')),
                        (''url'', JString ''http://site/'')]\<rparr>"
proof -
  have url: "q_url failing_query = Some ''http://site/''" "''http://site/'' \<noteq> []"
    by (simp_all add: failing_query_def)
  have name: "''DEFAULT'' = (case q_pdf_option failing_query of
      None \<Rightarrow> defaultPresetPdfOptionsName example_config | Some n \<Rightarrow> n)"
    by (simp add: failing_query_def example_default_name)
  have run: "getHandler example_env example_config failing_query example_state =
      (fst (getHandler example_env example_config failing_query example_state),
       snd (getHandler example_env example_config failing_query example_state))"
    by simp
  have ev: "AxiosGet ''http://cdn/b.png''
      \<in> set (new_events example_state
            (snd (getHandler example_env example_config failing_query example_state)))"
    by (simp add: failing_get_events)
  have err: "axios_get example_env ''http://cdn/b.png'' = Inl (AxiosError ''ECONNREFUSED'')"
    by (rule example_env_facts)
  from ev err have failure:
    "page_goto example_env ''http://site/'' = Some (AxiosError ''ECONNREFUSED'')
       \<or> (page_goto example_env ''http://site/'' = None
            \<and> lookup_preset example_config (preset example_state) ''DEFAULT'' = None
            \<and> AxiosError ''ECONNREFUSED'' = OptionsError ''DEFAULT'')
       \<or> (\<exists>u. AxiosGet u \<in> set (new_events example_state
              (snd (getHandler example_env example_config failing_query example_state)))
            \<and> axios_get example_env u = Inl (AxiosError ''ECONNREFUSED''))
       \<or> (\<exists>c opts. Pdf c opts \<in> set (new_events example_state
              (snd (getHandler example_env example_config failing_query example_state)))
            \<and> page_pdf example_env c opts = Inl (AxiosError ''ECONNREFUSED''))"
    by blast
  note inst = failure_is_server_error [OF url name run failure]
  show ?thesis
    by (intro conjI) (rule ev err inst)+
qed

text \<open>
  The POST handler resolves the options and assigns the templates before it asks for a
  page: no request by HTML has a preparation event from the lease on.
\<close>

lemma post_prepares_before_lease:
  assumes "postHandler env cfg request_body s = (rep, s')"
  shows "prepared_before_submission (new_events s s')"
  using assms
proof (cases rule: postHandler_cases)
  case invalid
  then show ?thesis by (simp add: new_events_def prepared_before_submission_def)
next
  case (unresolved body html name)
  then show ?thesis by (simp add: new_events_def prepared_before_submission_def emit_def)
next
  case (rendered body html name r base opts s1 res)
  from rendered(9) show ?thesis
    unfolding postJob_run rendered(8)
    by (auto simp: new_events_def prepared_before_submission_def split: option.splits)
qed

text \<open>
  C2. The GET handler does not do so. For the request \<open>url=http://site/\<close>,
  \<open>pdf_option=A4\<close>, \<open>header=<img src=http://cdn/logo.png>\<close> on the concrete server, the
  page is leased and navigated first; the resolution of the options and the fetch of the
  header image follow, inside the job of the leased page.
\<close>

theorem get_prepares_inside_lease:
  "new_events example_state
      (snd (getHandler example_env example_config example_query example_state)) =
     [Lease, Goto ''http://site/'', GetPDFOptions ''A4'', AxiosGet ''http://cdn/logo.png'',
      Pdf (Url ''http://site/'')
        (example_A4\<lparr>displayHeaderFooter := Some True,
           headerTemplate := Some (cheerio_html example_env
             (set_attr_all ''img'' ''src'' (''data:image/png;base64,'' @ toBase64 [137, 80, 78, 71])
                (cheerio_load example_env ''<img src=http://cdn/logo.png>'')))\<rparr>),
      Release]
   \<and> \<not> prepared_before_submission
         (new_events example_state
            (snd (getHandler example_env example_config example_query example_state)))"
  by (simp add: example_get_events prepared_before_submission_def)

theorem post_templates_verbatim_witness:
  "lookup_preset example_config (preset example_state) ''A4'' = Some 1
   \<and> heap example_state 1 = Some example_A4
   \<and> heap (snd (postHandler example_env example_config (Some example_body) example_state)) 9 =
       Some (example_A4\<lparr>displayHeaderFooter := Some True,
               headerTemplate := Some ''<img src=http://cdn/logo.png>''\<rparr>)
   \<and> new_events example_state
        (snd (postHandler example_env example_config (Some example_body) example_state)) =
       [GetPDFOptions ''A4'', Lease, SetContent ''<p>hi</p>'',
        Pdf (Html ''<p>hi</p>'')
          (example_A4\<lparr>displayHeaderFooter := Some True,
             headerTemplate := Some ''<img src=http://cdn/logo.png>''\<rparr>),
        Release]"
proof -
  have b: "Some example_body = Some example_body" by simp
  have h: "b_html example_body = Some ''<p>hi</p>''" "''<p>hi</p>'' \<noteq> []"
    by (simp_all add: example_body_def)
  have name: "''A4'' = (case b_pdf_option example_body of
      None \<Rightarrow> defaultPresetPdfOptionsName example_config | Some n \<Rightarrow> n)"
    by (simp add: example_body_def)
  have opts: "example_A4\<lparr>displayHeaderFooter := Some True,
               headerTemplate := Some ''<img src=http://cdn/logo.png>''\<rparr> =
     example_A4\<lparr>
           displayHeaderFooter :=
             (if supplied (b_header example_body) \<or> supplied (b_footer example_body) then Some True
              else displayHeaderFooter example_A4),
           headerTemplate :=
             (if supplied (b_header example_body) then b_header example_body
              else headerTemplate example_A4),
           footerTemplate :=
             (if supplied (b_footer example_body) then b_footer example_body
              else footerTemplate example_A4)\<rparr>"
    by (simp add: example_body_def supplied_def example_A4_def emptyPDFOptions_def)
  have run: "postHandler example_env example_config (Some example_body) example_state =
      (fst (postHandler example_env example_config (Some example_body) example_state),
       snd (postHandler example_env example_config (Some example_body) example_state))"
    by simp
  note inst = post_templates_verbatim [OF b h name example_lookup_A4 example_heap_A4 opts run]
  from inst [THEN conjunct1] have c1:
    "heap (snd (postHandler example_env example_config (Some example_body) example_state)) 9 =
       Some (example_A4\<lparr>displayHeaderFooter := Some True,
               headerTemplate := Some ''<img src=http://cdn/logo.png>''\<rparr>)"
    by (simp add: example_next_ref)
  from inst [THEN conjunct2] have c2:
    "new_events example_state
        (snd (postHandler example_env example_config (Some example_body) example_state)) =
       [GetPDFOptions ''A4'', Lease, SetContent ''<p>hi</p>'',
        Pdf (Html ''<p>hi</p>'')
          (example_A4\<lparr>displayHeaderFooter := Some True,
             headerTemplate := Some ''<img src=http://cdn/logo.png>''\<rparr>),
        Release]"
    by (simp add: example_env_facts)
  show ?thesis
    by (intro conjI) (rule example_lookup_A4 example_heap_A4 c1 c2)+
qed

end
